theory Spec2Isabelle
  imports Complex_Main
begin

section \<open>DrawSketchController: the generic controller of a sketcher drawing tool\<close>

text \<open>
  The theory embeds \<^verbatim>\<open>src/Mod/Sketcher/Gui/DrawSketchController.h\<close>: the class template
  \<^verbatim>\<open>ControlAmount\<close> (the mode table) and the class template \<^verbatim>\<open>DrawSketchController\<close>.
  The controller holds a pointer to its handler and a vector of on-view parameters
  (\<^verbatim>\<open>Gui::EditableDatumLabel\<close>); both classes are declared outside this header.
\<close>

subsection \<open>Machine integers\<close>

text \<open>
  The header mixes \<^verbatim>\<open>int\<close>, \<^verbatim>\<open>unsigned int\<close> (32 bits) and \<^verbatim>\<open>size_t\<close>. Values of
  \<^verbatim>\<open>int\<close> are modelled as \<open>int\<close>, values of the unsigned types as \<open>nat\<close>, and every
  conversion between them is written out: a conversion to \<^verbatim>\<open>unsigned int\<close> keeps the value
  modulo \<open>2 ^ 32\<close>, a conversion to \<^verbatim>\<open>int\<close> keeps the low 32 bits read in two's complement.
\<close>

definition uint_of_int :: "int \<Rightarrow> nat" where
  "uint_of_int i = nat (i mod 2 ^ 32)"

definition uint_of_size :: "nat \<Rightarrow> nat" where
  "uint_of_size n = n mod 2 ^ 32"

definition int_of_unsigned :: "nat \<Rightarrow> int" where
  "int_of_unsigned n =
     (let m = int (n mod 2 ^ 32) in if m < 2 ^ 31 then m else m - 2 ^ 32)"

subsection \<open>Data\<close>

text \<open>\<^verbatim>\<open>Base::Vector2d\<close> and \<^verbatim>\<open>Base::Vector3d\<close>: the controller only stores and passes them on.\<close>

type_synonym Vector2d = "real \<times> real"

type_synonym Vector3d = "real \<times> real \<times> real"

text \<open>
  \<^verbatim>\<open>SelectModeT\<close> is a template parameter, an enumeration of the states of the tool's state
  machine. The controller names only its enumerator \<^verbatim>\<open>End\<close>; \<open>Seek k\<close> stands for the
  enumerator of value \<open>k\<close> before it.
\<close>

datatype SelectMode = Seek nat | End

text \<open>The two colours of \<^verbatim>\<open>ColorManager\<close>.\<close>

datatype Color = dimConstrColor | dimConstrDeactivatedColor

text \<open>
  Modelled from the spec: \<^verbatim>\<open>Gui::EditableDatumLabel\<close> (the Parameter Control) is declared in
  \<^verbatim>\<open>Gui/EditableDatumLabel.h\<close>, which is not part of the sources. The spec gives a control
  its own activation, edit and value-changed lifecycle and an "explicitly set by user" flag.
  The model keeps the public data member \<^verbatim>\<open>isSet\<close>, the colour (set by the constructor and
  by \<^verbatim>\<open>setColor\<close>), and the list of the other member functions the controller has called on
  the control, oldest first. \<^verbatim>\<open>startEdit\<close> is always given the controller's one keyboard
  manager, which the call therefore does not record.
\<close>

datatype LabelCall =
    stopEdit
  | deactivate
  | activate
  | setPoints Vector3d Vector3d
  | startEdit real
  | setFocusToSpinbox

record EditableDatumLabel =
  isSet :: bool
  color :: Color
  received :: "LabelCall list"

definition call :: "LabelCall \<Rightarrow> EditableDatumLabel \<Rightarrow> EditableDatumLabel" where
  "call m l = l\<lparr>received := received l @ [m]\<rparr>"

definition setColor :: "Color \<Rightarrow> EditableDatumLabel \<Rightarrow> EditableDatumLabel" where
  "setColor col l = l\<lparr>color := col\<rparr>"

text \<open>
  The control that \<^verbatim>\<open>initNOnViewParameters\<close> constructs: deactivated colour, nothing
  called on it yet, no value set.
\<close>

definition newEditableDatumLabel :: EditableDatumLabel where
  "newEditableDatumLabel =
     \<lparr>isSet = False, color = dimConstrDeactivatedColor, received = []\<rparr>"

text \<open>
  Modelled from the spec: the handler class \<^verbatim>\<open>HandlerT\<close> is a template parameter. What the
  controller reads of it is its construction state \<^verbatim>\<open>state()\<close>, its public flag
  \<^verbatim>\<open>continuousMode\<close> and its construction method, cast to \<^verbatim>\<open>int\<close> by the mode table.
\<close>

record Handler =
  state :: SelectMode
  continuousMode :: bool
  constructionMethod :: nat

text \<open>
  Modelled from the spec: the handler's queries \<^verbatim>\<open>isState\<close>, \<^verbatim>\<open>isLastState\<close> (the
  terminal state is \<^verbatim>\<open>End\<close>) and \<^verbatim>\<open>getFirstState\<close> are members of \<^verbatim>\<open>HandlerT\<close>.
\<close>

definition isState :: "Handler \<Rightarrow> SelectMode \<Rightarrow> bool" where
  "isState h m \<longleftrightarrow> state h = m"

definition isLastState :: "Handler \<Rightarrow> bool" where
  "isLastState h \<longleftrightarrow> state h = End"

definition getFirstState :: "Handler \<Rightarrow> SelectMode" where
  "getFirstState h = Seek 0"

text \<open>
  What the controller calls outside itself, in the order of the calls: the handler's member
  functions and the controller's own extension points whose body in this class is empty.
\<close>

datatype Call =
    MouseMove Vector2d
  | PreselectAtPoint Vector2d
  | UpdateCursor
  | Reset
  | ResetControls
  | DoConstructionMethodChanged
  | DoChangeDrawSketchHandlerMode
  | AdaptDrawingToOnViewParameterChange int real
  | DoEnforceControlParameters Vector2d

text \<open>
  The controller with the handler it points to. \<open>issued\<close> is not a member of the class: it
  lists the calls of type \<open>Call\<close> that the running member function has made, oldest first.
\<close>

record DrawSketchController =
  handler :: Handler
  init :: bool
  firstMoveInit :: bool
  prevCursorPosition :: Vector2d
  lastControlEnforcedPosition :: Vector2d
  onViewIndexWithFocus :: int
  nOnViewParameter :: int
  onViewParameters :: "EditableDatumLabel list"
  issued :: "Call list"

text \<open>
  A tool supplies the handler's member functions and specialises the extension points. Each
  may change the handler and, through the handler's calls back into the controller or as a
  member of a derived controller, the controller. \<^verbatim>\<open>getState\<close> is \<^verbatim>\<open>const\<close> and reads the
  handler. In the header the extension points have empty bodies, and \<^verbatim>\<open>getState\<close> returns
  the handler's first state.
\<close>

record Tool =
  mouseMove :: "Vector2d \<Rightarrow> DrawSketchController \<Rightarrow> DrawSketchController"
  preselectAtPoint :: "Vector2d \<Rightarrow> DrawSketchController \<Rightarrow> DrawSketchController"
  updateCursor :: "DrawSketchController \<Rightarrow> DrawSketchController"
  reset :: "DrawSketchController \<Rightarrow> DrawSketchController"
  handlerResetControls :: "DrawSketchController \<Rightarrow> DrawSketchController"
  doConstructionMethodChanged :: "DrawSketchController \<Rightarrow> DrawSketchController"
  doChangeDrawSketchHandlerMode :: "DrawSketchController \<Rightarrow> DrawSketchController"
  adaptDrawingToOnViewParameterChange ::
    "int \<Rightarrow> real \<Rightarrow> DrawSketchController \<Rightarrow> DrawSketchController"
  doEnforceControlParameters ::
    "Vector2d \<Rightarrow> DrawSketchController \<Rightarrow> Vector2d \<times> DrawSketchController"
  getState :: "Handler \<Rightarrow> int \<Rightarrow> SelectMode"

text \<open>
  The header's own bodies of the extension points, with a handler whose member functions
  leave everything as it is.
\<close>

definition headerTool :: Tool where
  "headerTool =
     \<lparr>mouseMove = (\<lambda>p c. c), preselectAtPoint = (\<lambda>p c. c), updateCursor = (\<lambda>c. c),
      reset = (\<lambda>c. c), handlerResetControls = (\<lambda>c. c),
      doConstructionMethodChanged = (\<lambda>c. c), doChangeDrawSketchHandlerMode = (\<lambda>c. c),
      adaptDrawingToOnViewParameterChange = (\<lambda>i v c. c),
      doEnforceControlParameters = (\<lambda>p c. (p, c)),
      getState = (\<lambda>h i. getFirstState h)\<rparr>"

text \<open>
  A call runs the tool's function and adds itself to \<open>issued\<close>. What the tool's function
  does to \<open>issued\<close> is discarded, so the list holds exactly the calls made by the controller's
  member function that is running.
\<close>

definition handler_mouseMove :: "Tool \<Rightarrow> Vector2d \<Rightarrow> DrawSketchController \<Rightarrow> DrawSketchController" where
  "handler_mouseMove T p c = (mouseMove T p c)\<lparr>issued := issued c @ [MouseMove p]\<rparr>"

definition handler_preselectAtPoint :: "Tool \<Rightarrow> Vector2d \<Rightarrow> DrawSketchController \<Rightarrow> DrawSketchController" where
  "handler_preselectAtPoint T p c =
     (preselectAtPoint T p c)\<lparr>issued := issued c @ [PreselectAtPoint p]\<rparr>"

definition handler_updateCursor :: "Tool \<Rightarrow> DrawSketchController \<Rightarrow> DrawSketchController" where
  "handler_updateCursor T c = (updateCursor T c)\<lparr>issued := issued c @ [UpdateCursor]\<rparr>"

definition handler_reset :: "Tool \<Rightarrow> DrawSketchController \<Rightarrow> DrawSketchController" where
  "handler_reset T c = (reset T c)\<lparr>issued := issued c @ [Reset]\<rparr>"

definition handler_resetControls :: "Tool \<Rightarrow> DrawSketchController \<Rightarrow> DrawSketchController" where
  "handler_resetControls T c =
     (handlerResetControls T c)\<lparr>issued := issued c @ [ResetControls]\<rparr>"

definition call_doConstructionMethodChanged :: "Tool \<Rightarrow> DrawSketchController \<Rightarrow> DrawSketchController" where
  "call_doConstructionMethodChanged T c =
     (doConstructionMethodChanged T c)\<lparr>issued := issued c @ [DoConstructionMethodChanged]\<rparr>"

definition call_doChangeDrawSketchHandlerMode :: "Tool \<Rightarrow> DrawSketchController \<Rightarrow> DrawSketchController" where
  "call_doChangeDrawSketchHandlerMode T c =
     (doChangeDrawSketchHandlerMode T c)\<lparr>issued := issued c @ [DoChangeDrawSketchHandlerMode]\<rparr>"

definition call_adaptDrawingToOnViewParameterChange ::
  "Tool \<Rightarrow> int \<Rightarrow> real \<Rightarrow> DrawSketchController \<Rightarrow> DrawSketchController" where
  "call_adaptDrawingToOnViewParameterChange T i v c =
     (adaptDrawingToOnViewParameterChange T i v c)
       \<lparr>issued := issued c @ [AdaptDrawingToOnViewParameterChange i v]\<rparr>"

definition call_doEnforceControlParameters ::
  "Tool \<Rightarrow> Vector2d \<Rightarrow> DrawSketchController \<Rightarrow> Vector2d \<times> DrawSketchController" where
  "call_doEnforceControlParameters T p c =
     (case doEnforceControlParameters T p c of
        (p', c') \<Rightarrow> (p', c'\<lparr>issued := issued c @ [DoEnforceControlParameters p]\<rparr>))"

subsection \<open>The mode table\<close>

text \<open>
  \<^verbatim>\<open>ControlAmount<sizes...>::size\<close> indexes a \<^verbatim>\<open>std::array\<close> with the construction method
  cast to \<^verbatim>\<open>int\<close>. An index outside the array is undefined behaviour: \<open>None\<close>.
\<close>

definition ControlAmount_size :: "int list \<Rightarrow> nat \<Rightarrow> int option" where
  "ControlAmount_size sizes constructionmethod =
     (if constructionmethod < length sizes then Some (sizes ! constructionmethod) else None)"

definition defaultMethodSize :: "int list \<Rightarrow> int option" where
  "defaultMethodSize sizes = ControlAmount_size sizes 0"

subsection \<open>Focus and activation of the on-view parameters\<close>

text \<open>Applying a member function of the control at index \<open>i\<close>; callers check the index.\<close>

definition onLabel ::
  "nat \<Rightarrow> (EditableDatumLabel \<Rightarrow> EditableDatumLabel) \<Rightarrow> DrawSketchController \<Rightarrow> DrawSketchController" where
  "onLabel i f c = c\<lparr>onViewParameters := (onViewParameters c)[i := f (onViewParameters c ! i)]\<rparr>"

text \<open>The parameter is an \<^verbatim>\<open>unsigned int\<close>; \<^verbatim>\<open>getState\<close> takes it as an \<^verbatim>\<open>int\<close>.\<close>

definition isOnViewParameterOfCurrentMode :: "Tool \<Rightarrow> nat \<Rightarrow> DrawSketchController \<Rightarrow> bool" where
  "isOnViewParameterOfCurrentMode T onviewparameterindex c \<longleftrightarrow>
     onviewparameterindex < length (onViewParameters c)
     \<and> getState T (handler c) (int_of_unsigned onviewparameterindex) = state (handler c)"

definition setFocusToOnViewParameter :: "nat \<Rightarrow> DrawSketchController \<Rightarrow> DrawSketchController" where
  "setFocusToOnViewParameter onviewparameterindex c =
     (if onviewparameterindex < length (onViewParameters c)
      then (onLabel onviewparameterindex (call setFocusToSpinbox) c)
             \<lparr>onViewIndexWithFocus := int_of_unsigned onviewparameterindex\<rparr>
      else c)"

text \<open>
  \<^verbatim>\<open>afterHandlerModeChanged\<close>: replay of the last raw position unless the handler is at
  \<^verbatim>\<open>End\<close> with continuous mode off.
\<close>

definition afterHandlerModeChanged :: "Tool \<Rightarrow> DrawSketchController \<Rightarrow> DrawSketchController" where
  "afterHandlerModeChanged T c =
     (if \<not> isState (handler c) End \<or> continuousMode (handler c)
      then handler_mouseMove T (prevCursorPosition c) c
      else c)"

text \<open>
  \<^verbatim>\<open>setModeOnViewParameters\<close>. The loop variable is a \<^verbatim>\<open>size_t\<close>; it is narrowed to
  \<^verbatim>\<open>unsigned int\<close> for \<^verbatim>\<open>isOnViewParameterOfCurrentMode\<close> and to \<^verbatim>\<open>int\<close> when it is
  stored as the index with focus.
\<close>

definition setModeOnViewParameters_body ::
  "Tool \<Rightarrow> nat \<Rightarrow> bool \<Rightarrow> DrawSketchController \<Rightarrow> bool \<times> DrawSketchController" where
  "setModeOnViewParameters_body T i firstOfMode c =
     (if \<not> isOnViewParameterOfCurrentMode T (uint_of_size i) c then
        (let c1 = onLabel i (call stopEdit) c;
             c2 = (if \<not> isSet (onViewParameters c1 ! i) \<or> state (handler c1) = End
                   then onLabel i (call deactivate) c1 else c1)
         in (firstOfMode, c2))
      else
        (let c1 = (if firstOfMode then c\<lparr>onViewIndexWithFocus := int_of_unsigned i\<rparr> else c);
             c2 = onLabel i (call activate) c1;
             c3 = onLabel i (call (setPoints (0, 0, 0) (0, 0, 0))) c2;
             c4 = onLabel i (call (startEdit 0)) c3
         in (False, c4)))"

function setModeOnViewParameters_loop ::
  "Tool \<Rightarrow> nat \<Rightarrow> bool \<Rightarrow> DrawSketchController \<Rightarrow> DrawSketchController" where
  "setModeOnViewParameters_loop T i firstOfMode c =
     (if i < length (onViewParameters c)
      then (case setModeOnViewParameters_body T i firstOfMode c of
              (firstOfMode', c') \<Rightarrow> setModeOnViewParameters_loop T (i + 1) firstOfMode' c')
      else c)"
  by pat_completeness auto
termination
  by (relation "measure (\<lambda>(T, i, firstOfMode, c). length (onViewParameters c) - i)")
     (auto simp: setModeOnViewParameters_body_def onLabel_def Let_def split: if_splits)

declare setModeOnViewParameters_loop.simps [simp del]

definition setModeOnViewParameters :: "Tool \<Rightarrow> DrawSketchController \<Rightarrow> DrawSketchController" where
  "setModeOnViewParameters T c =
     setModeOnViewParameters_loop T 0 True (c\<lparr>onViewIndexWithFocus := - 1\<rparr>)"

text \<open>
  \<^verbatim>\<open>passFocusToNextOnViewParameter\<close>. \<^verbatim>\<open>index\<close> is an \<^verbatim>\<open>unsigned int\<close>, so \<^verbatim>\<open>index++\<close>
  wraps at \<open>2 ^ 32\<close>, while the size it is compared with is a \<^verbatim>\<open>size_t\<close>; the loop is
  therefore defined as a partial function, \<open>None\<close> when it does not return.
\<close>

partial_function (option) passFocusToNextOnViewParameter_loop ::
  "Tool \<Rightarrow> nat \<Rightarrow> DrawSketchController \<Rightarrow> DrawSketchController option" where
  "passFocusToNextOnViewParameter_loop T index c =
     (if index < length (onViewParameters c) then
        (if isOnViewParameterOfCurrentMode T index c
         then Some (setFocusToOnViewParameter index c)
         else passFocusToNextOnViewParameter_loop T ((index + 1) mod 2 ^ 32) c)
      else Some c)"

definition passFocusToNextOnViewParameter :: "Tool \<Rightarrow> DrawSketchController \<Rightarrow> DrawSketchController option" where
  "passFocusToNextOnViewParameter T c =
     (let index = uint_of_int (onViewIndexWithFocus c + 1);
          index = (if index \<ge> length (onViewParameters c) then 0 else index)
      in passFocusToNextOnViewParameter_loop T index c)"

definition tabShortcut :: "Tool \<Rightarrow> DrawSketchController \<Rightarrow> DrawSketchController option" where
  "tabShortcut T c = passFocusToNextOnViewParameter T c"

definition onHandlerModeChanged :: "Tool \<Rightarrow> DrawSketchController \<Rightarrow> DrawSketchController" where
  "onHandlerModeChanged T c = setModeOnViewParameters T c"

text \<open>\<^verbatim>\<open>unsetOnViewParameter\<close>, for the control at index \<open>i\<close> of the vector.\<close>

definition unsetOnViewParameter :: "nat \<Rightarrow> DrawSketchController \<Rightarrow> DrawSketchController" where
  "unsetOnViewParameter i c =
     onLabel i (\<lambda>l. setColor dimConstrDeactivatedColor (l\<lparr>isSet := False\<rparr>)) c"

subsection \<open>Initialisation and reset\<close>

text \<open>
  \<^verbatim>\<open>initNOnViewParameters\<close>: the vector is cleared, then the loop over \<^verbatim>\<open>int i\<close> appends one
  new control per round. The viewer and the placement it reads from the handler only reach
  the constructor of the control.
\<close>

function initNOnViewParameters_loop ::
  "int \<Rightarrow> int \<Rightarrow> EditableDatumLabel list \<Rightarrow> EditableDatumLabel list" where
  "initNOnViewParameters_loop i n ps =
     (if i < n then initNOnViewParameters_loop (i + 1) n (ps @ [newEditableDatumLabel]) else ps)"
  by pat_completeness auto
termination
  by (relation "measure (\<lambda>(i, n, ps). nat (n - i))") auto

declare initNOnViewParameters_loop.simps [simp del]

definition initNOnViewParameters :: "int \<Rightarrow> DrawSketchController \<Rightarrow> DrawSketchController" where
  "initNOnViewParameters n c = c\<lparr>onViewParameters := initNOnViewParameters_loop 0 n []\<rparr>"

definition configureOnViewParameters :: "DrawSketchController \<Rightarrow> DrawSketchController" where
  "configureOnViewParameters c = c"

definition resetOnViewParameters :: "DrawSketchController \<Rightarrow> DrawSketchController" where
  "resetOnViewParameters c =
     configureOnViewParameters
       ((initNOnViewParameters (nOnViewParameter c) c)\<lparr>onViewIndexWithFocus := 0\<rparr>)"

definition doResetControls :: "DrawSketchController \<Rightarrow> DrawSketchController" where
  "doResetControls c = resetOnViewParameters c"

definition resetControls :: "DrawSketchController \<Rightarrow> DrawSketchController" where
  "resetControls c = (doResetControls c)\<lparr>firstMoveInit := False\<rparr>"

definition doInitControls :: "DrawSketchController \<Rightarrow> DrawSketchController" where
  "doInitControls c = c"

definition initControls :: "DrawSketchController \<Rightarrow> DrawSketchController" where
  "initControls c = (resetControls (doInitControls c))\<lparr>init := True\<rparr>"

subsection \<open>Pointer movement and enforced position\<close>

definition onMouseMoved :: "Tool \<Rightarrow> Vector2d \<Rightarrow> DrawSketchController \<Rightarrow> DrawSketchController" where
  "onMouseMoved T originalSketchPosition c =
     (if \<not> firstMoveInit c then setModeOnViewParameters T c else c)"

definition mouseMoved :: "Tool \<Rightarrow> Vector2d \<Rightarrow> DrawSketchController \<Rightarrow> DrawSketchController" where
  "mouseMoved T originalSketchPosition c =
     (let c1 = onMouseMoved T originalSketchPosition c
      in if \<not> firstMoveInit c1 then c1\<lparr>firstMoveInit := True\<rparr> else c1)"

text \<open>The index with focus is an \<^verbatim>\<open>int\<close>, the parameter of the callee an \<^verbatim>\<open>unsigned int\<close>.\<close>

definition afterEnforceControlParameters :: "DrawSketchController \<Rightarrow> DrawSketchController" where
  "afterEnforceControlParameters c =
     (if onViewIndexWithFocus c \<ge> 0
      then setFocusToOnViewParameter (uint_of_int (onViewIndexWithFocus c)) c
      else c)"

text \<open>
  \<^verbatim>\<open>enforceControlParameters\<close> takes the position by reference; the model returns it
  with the controller.
\<close>

definition enforceControlParameters ::
  "Tool \<Rightarrow> Vector2d \<Rightarrow> DrawSketchController \<Rightarrow> Vector2d \<times> DrawSketchController" where
  "enforceControlParameters T onSketchPos c =
     (let c1 = c\<lparr>prevCursorPosition := onSketchPos\<rparr>;
          (onSketchPos', c2) = call_doEnforceControlParameters T onSketchPos c1;
          c3 = c2\<lparr>lastControlEnforcedPosition := onSketchPos'\<rparr>
      in (onSketchPos', afterEnforceControlParameters c3))"

definition adaptParameters :: "DrawSketchController \<Rightarrow> DrawSketchController" where
  "adaptParameters c = c"

subsection \<open>Change of construction method, change of a value\<close>

text \<open>\<open>sizes\<close> is the template argument list of \<^verbatim>\<open>OnViewParametersT\<close>.\<close>

definition onConstructionMethodChanged ::
  "int list \<Rightarrow> Tool \<Rightarrow> DrawSketchController \<Rightarrow> DrawSketchController option" where
  "onConstructionMethodChanged sizes T c =
     (case ControlAmount_size sizes (constructionMethod (handler c)) of
        None \<Rightarrow> None
      | Some n \<Rightarrow>
          (let c1 = c\<lparr>nOnViewParameter := n\<rparr>;
               c2 = call_doConstructionMethodChanged T c1;
               c3 = handler_updateCursor T c2;
               c4 = handler_reset T c3
           in Some (handler_mouseMove T (prevCursorPosition c4) c4)))"

definition finishControlsChanged :: "Tool \<Rightarrow> DrawSketchController \<Rightarrow> DrawSketchController" where
  "finishControlsChanged T c =
     (let c1 = handler_mouseMove T (prevCursorPosition c) c;
          currentstate = state (handler c1);
          c2 = handler_preselectAtPoint T (lastControlEnforcedPosition c1) c1;
          c3 = call_doChangeDrawSketchHandlerMode T c2
      in if \<not> isLastState (handler c3) \<and> state (handler c3) \<noteq> currentstate \<and> firstMoveInit c3
         then handler_mouseMove T (prevCursorPosition c3) c3
         else c3)"

text \<open>
  The first statement of \<^verbatim>\<open>onViewValueChanged\<close>, the focus step: the \<^verbatim>\<open>int\<close>
  \<^verbatim>\<open>onviewparameterindex + 1\<close> is passed to \<^verbatim>\<open>unsigned int\<close> parameters.
\<close>

definition onViewValueChanged_focus :: "Tool \<Rightarrow> int \<Rightarrow> DrawSketchController \<Rightarrow> DrawSketchController" where
  "onViewValueChanged_focus T onviewparameterindex c =
     (if isOnViewParameterOfCurrentMode T (uint_of_int (onviewparameterindex + 1)) c
      then setFocusToOnViewParameter (uint_of_int (onviewparameterindex + 1)) c
      else c)"

definition onViewValueChanged ::
  "Tool \<Rightarrow> int \<Rightarrow> real \<Rightarrow> DrawSketchController \<Rightarrow> DrawSketchController" where
  "onViewValueChanged T onviewparameterindex value c =
     finishControlsChanged T
       (call_adaptDrawingToOnViewParameterChange T onviewparameterindex value
          (onViewValueChanged_focus T onviewparameterindex c))"

text \<open>
  The function object that \<^verbatim>\<open>initNOnViewParameters\<close> connects to the \<^verbatim>\<open>valueChanged\<close> signal
  of the control it creates in round \<open>i\<close>.
\<close>

definition valueChanged :: "Tool \<Rightarrow> int \<Rightarrow> real \<Rightarrow> DrawSketchController \<Rightarrow> DrawSketchController" where
  "valueChanged T i value c =
     onViewValueChanged T i value (onLabel (nat i) (setColor dimConstrColor) c)"

text \<open>
  The helper \<^verbatim>\<open>setMode\<close> assigns an enumeration variable of the derived controller, which
  is not part of the state here, then calls the handler.
\<close>

definition setMode :: "Tool \<Rightarrow> DrawSketchController \<Rightarrow> DrawSketchController" where
  "setMode T c = handler_resetControls T (handler_updateCursor T c)"

subsection \<open>Construction\<close>

text \<open>
  The constructor: the member initialisers of the class, for a handler \<open>h\<close> and the
  default method size \<open>n\<close> of the mode table.
\<close>

definition newDrawSketchController :: "int \<Rightarrow> Handler \<Rightarrow> DrawSketchController" where
  "newDrawSketchController n h =
     \<lparr>handler = h, init = False, firstMoveInit = False, prevCursorPosition = (0, 0),
      lastControlEnforcedPosition = (0, 0), onViewIndexWithFocus = 0, nOnViewParameter = n,
      onViewParameters = [], issued = []\<rparr>"

text \<open>A handler in its first state, for the examples.\<close>

definition seekFirstHandler :: Handler where
  "seekFirstHandler = \<lparr>state = Seek 0, continuousMode = False, constructionMethod = 0\<rparr>"

text \<open>
  The controller of a two-slot tool after its constructor and \<^verbatim>\<open>resetControls\<close>, and the same
  controller with its handler at \<^verbatim>\<open>End\<close>.
\<close>

definition twoSlotController :: DrawSketchController where
  "twoSlotController = resetControls (newDrawSketchController 2 seekFirstHandler)"

definition endedController :: DrawSketchController where
  "endedController = twoSlotController\<lparr>handler := seekFirstHandler\<lparr>state := End\<rparr>\<rparr>"

subsection \<open>Vocabulary of the properties\<close>

text \<open>The two position members are the same in \<open>c\<close> and \<open>c'\<close>.\<close>

definition samePositions :: "DrawSketchController \<Rightarrow> DrawSketchController \<Rightarrow> bool" where
  "samePositions c c' \<longleftrightarrow>
     prevCursorPosition c' = prevCursorPosition c
     \<and> lastControlEnforcedPosition c' = lastControlEnforcedPosition c"

text \<open>No function of the tool changes the two position members.\<close>

definition toolKeepsPositions :: "Tool \<Rightarrow> bool" where
  "toolKeepsPositions T \<longleftrightarrow>
     (\<forall>c p. samePositions c (mouseMove T p c))
     \<and> (\<forall>c p. samePositions c (preselectAtPoint T p c))
     \<and> (\<forall>c. samePositions c (updateCursor T c))
     \<and> (\<forall>c. samePositions c (reset T c))
     \<and> (\<forall>c. samePositions c (handlerResetControls T c))
     \<and> (\<forall>c. samePositions c (doConstructionMethodChanged T c))
     \<and> (\<forall>c. samePositions c (doChangeDrawSketchHandlerMode T c))
     \<and> (\<forall>c i v. samePositions c (adaptDrawingToOnViewParameterChange T i v c))
     \<and> (\<forall>c p. samePositions c (snd (doEnforceControlParameters T p c)))"

text \<open>
  The control at index \<open>i\<close> after one round of the loop of \<^verbatim>\<open>setModeOnViewParameters\<close>
  (the flag \<^verbatim>\<open>isSet\<close> is read after \<^verbatim>\<open>stopEdit\<close>, which leaves it as it is).
\<close>

definition afterSetMode :: "Tool \<Rightarrow> DrawSketchController \<Rightarrow> nat \<Rightarrow> EditableDatumLabel" where
  "afterSetMode T c i =
     (let l = onViewParameters c ! i in
      if isOnViewParameterOfCurrentMode T i c
      then call (startEdit 0) (call (setPoints (0, 0, 0) (0, 0, 0)) (call activate l))
      else if \<not> isSet l \<or> state (handler c) = End
      then call deactivate (call stopEdit l)
      else call stopEdit l)"

fun isMouseMove :: "Call \<Rightarrow> bool" where
  "isMouseMove (MouseMove p) = True"
| "isMouseMove _ = False"

subsection \<open>Example tools and controllers\<close>

text \<open>
  A tool whose enforcement hook locks the first coordinate to the value 5, as a control with
  a committed length would.
\<close>

definition lockedTool :: Tool where
  "lockedTool = headerTool\<lparr>doEnforceControlParameters := (\<lambda>p c. ((5, snd p), c))\<rparr>"

text \<open>A tool whose first two on-view parameters belong to the first state, the others to the second.\<close>

definition twoStateTool :: Tool where
  "twoStateTool = headerTool\<lparr>getState := (\<lambda>h i. if i < 2 then Seek 0 else Seek 1)\<rparr>"

text \<open>A tool whose handler moves to its second state in \<^verbatim>\<open>mouseMove\<close>.\<close>

definition advancingTool :: Tool where
  "advancingTool =
     headerTool\<lparr>mouseMove := (\<lambda>p c. c\<lparr>handler := (handler c)\<lparr>state := Seek 1\<rparr>\<rparr>)\<rparr>"

text \<open>A tool whose mode-transition hook moves the handler to its second state.\<close>

definition transitionTool :: Tool where
  "transitionTool =
     headerTool\<lparr>doChangeDrawSketchHandlerMode :=
       (\<lambda>c. c\<lparr>handler := (handler c)\<lparr>state := Seek 1\<rparr>\<rparr>)\<rparr>"

text \<open>
  Three slots with the focus on the second; two slots after a first movement; two slots
  with the handler switched to the second construction method.
\<close>

definition threeSlotController :: DrawSketchController where
  "threeSlotController =
     (resetControls (newDrawSketchController 3 seekFirstHandler))\<lparr>onViewIndexWithFocus := 1\<rparr>"

definition movedController :: DrawSketchController where
  "movedController = twoSlotController\<lparr>firstMoveInit := True\<rparr>"

definition switchedController :: DrawSketchController where
  "switchedController =
     twoSlotController\<lparr>handler := seekFirstHandler\<lparr>constructionMethod := 1\<rparr>\<rparr>"

section \<open>Properties\<close>

subsection \<open>What \<^verbatim>\<open>setModeOnViewParameters\<close> leaves alone\<close>

lemma setModeOnViewParameters_body_shape:
  assumes "i < length (onViewParameters c)"
  shows "\<exists>ps k. snd (setModeOnViewParameters_body T i b c)
            = c\<lparr>onViewParameters := ps, onViewIndexWithFocus := k\<rparr>
          \<and> length ps = length (onViewParameters c)"
proof (cases "isOnViewParameterOfCurrentMode T (uint_of_size i) c")
  case False
  then have "snd (setModeOnViewParameters_body T i b c)
      = c\<lparr>onViewParameters := onViewParameters (snd (setModeOnViewParameters_body T i b c)),
           onViewIndexWithFocus := onViewIndexWithFocus c\<rparr>"
    by (simp add: setModeOnViewParameters_body_def onLabel_def Let_def)
  moreover have "length (onViewParameters (snd (setModeOnViewParameters_body T i b c)))
      = length (onViewParameters c)"
    using False by (simp add: setModeOnViewParameters_body_def onLabel_def Let_def)
  ultimately show ?thesis by blast
next
  case True
  then have "snd (setModeOnViewParameters_body T i b c)
      = c\<lparr>onViewParameters := onViewParameters (snd (setModeOnViewParameters_body T i b c)),
           onViewIndexWithFocus := (if b then int_of_unsigned i else onViewIndexWithFocus c)\<rparr>"
    by (simp add: setModeOnViewParameters_body_def onLabel_def Let_def)
  moreover have "length (onViewParameters (snd (setModeOnViewParameters_body T i b c)))
      = length (onViewParameters c)"
    using True by (simp add: setModeOnViewParameters_body_def onLabel_def Let_def)
  ultimately show ?thesis by blast
qed

lemma setModeOnViewParameters_loop_shape:
  "\<exists>ps k. setModeOnViewParameters_loop T i b c = c\<lparr>onViewParameters := ps, onViewIndexWithFocus := k\<rparr>
     \<and> length ps = length (onViewParameters c)"
proof (induction T i b c rule: setModeOnViewParameters_loop.induct)
  case (1 T i firstOfMode c)
  show ?case
  proof (cases "i < length (onViewParameters c)")
    case False
    then have "setModeOnViewParameters_loop T i firstOfMode c
        = c\<lparr>onViewParameters := onViewParameters c, onViewIndexWithFocus := onViewIndexWithFocus c\<rparr>"
      by (simp add: setModeOnViewParameters_loop.simps)
    then show ?thesis by blast
  next
    case True
    obtain b' c' where body: "setModeOnViewParameters_body T i firstOfMode c = (b', c')"
      by (cases "setModeOnViewParameters_body T i firstOfMode c")
    from setModeOnViewParameters_body_shape [OF True, of T firstOfMode] body
    obtain qs j where c': "c' = c\<lparr>onViewParameters := qs, onViewIndexWithFocus := j\<rparr>"
      and qs: "length qs = length (onViewParameters c)" by auto
    from "1.IH" [OF True body [symmetric]]
    obtain ps k where r: "setModeOnViewParameters_loop T (i + 1) b' c'
           = c'\<lparr>onViewParameters := ps, onViewIndexWithFocus := k\<rparr>"
      and ps: "length ps = length (onViewParameters c')" by blast
    have "setModeOnViewParameters_loop T i firstOfMode c = setModeOnViewParameters_loop T (i + 1) b' c'"
      using True body by (simp add: setModeOnViewParameters_loop.simps)
    with r c' have "setModeOnViewParameters_loop T i firstOfMode c
        = c\<lparr>onViewParameters := ps, onViewIndexWithFocus := k\<rparr>" by simp
    moreover have "length ps = length (onViewParameters c)" using ps qs c' by simp
    ultimately show ?thesis by blast
  qed
qed

lemma setModeOnViewParameters_shape:
  "\<exists>ps k. setModeOnViewParameters T c = c\<lparr>onViewParameters := ps, onViewIndexWithFocus := k\<rparr>
     \<and> length ps = length (onViewParameters c)"
proof -
  from setModeOnViewParameters_loop_shape [of T 0 True "c\<lparr>onViewIndexWithFocus := - 1\<rparr>"]
  obtain ps k where "setModeOnViewParameters_loop T 0 True (c\<lparr>onViewIndexWithFocus := - 1\<rparr>)
      = c\<lparr>onViewIndexWithFocus := - 1\<rparr>\<lparr>onViewParameters := ps, onViewIndexWithFocus := k\<rparr>"
    and "length ps = length (onViewParameters (c\<lparr>onViewIndexWithFocus := - 1\<rparr>))" by blast
  then have "setModeOnViewParameters T c = c\<lparr>onViewParameters := ps, onViewIndexWithFocus := k\<rparr>
     \<and> length ps = length (onViewParameters c)"
    by (simp add: setModeOnViewParameters_def)
  then show ?thesis by blast
qed

lemma setModeOnViewParameters_firstMoveInit:
  "firstMoveInit (setModeOnViewParameters T c) = firstMoveInit c"
  using setModeOnViewParameters_shape [of T c] by auto

lemma mouseMoved_after_first:
  "firstMoveInit c \<Longrightarrow> mouseMoved T q c = c"
  by (simp add: mouseMoved_def onMouseMoved_def)

lemma mouseMoved_first:
  "\<not> firstMoveInit c \<Longrightarrow> mouseMoved T p c = (setModeOnViewParameters T c)\<lparr>firstMoveInit := True\<rparr>"
  by (simp add: mouseMoved_def onMouseMoved_def setModeOnViewParameters_firstMoveInit)

lemma fold_mouseMoved_after_first:
  "firstMoveInit c \<Longrightarrow> fold (mouseMoved T) ps c = c"
  by (induction ps) (simp_all add: mouseMoved_after_first)

subsection \<open>Conversions in range\<close>

lemma int_of_unsigned_small: "n < 2 ^ 31 \<Longrightarrow> int_of_unsigned n = int n"
  by (simp add: int_of_unsigned_def Let_def)

lemma uint_of_int_small: "0 \<le> i \<Longrightarrow> i < 2 ^ 32 \<Longrightarrow> uint_of_int i = nat i"
  by (simp add: uint_of_int_def)

lemma uint_of_size_small: "n < 2 ^ 32 \<Longrightarrow> uint_of_size n = n"
  by (simp add: uint_of_size_def)

subsection \<open>The loop of \<^verbatim>\<open>setModeOnViewParameters\<close>\<close>

lemma isOnViewParameterOfCurrentMode_cong:
  "handler c' = handler c \<Longrightarrow> length (onViewParameters c') = length (onViewParameters c) \<Longrightarrow>
     isOnViewParameterOfCurrentMode T j c' = isOnViewParameterOfCurrentMode T j c"
  by (simp add: isOnViewParameterOfCurrentMode_def)

lemma isSet_call: "isSet (call m l) = isSet l"
  by (simp add: call_def)

lemma setModeOnViewParameters_body_eq:
  assumes "i < length (onViewParameters c)" and "length (onViewParameters c) < 2 ^ 31"
  shows "setModeOnViewParameters_body T i b c =
     (b \<and> \<not> isOnViewParameterOfCurrentMode T i c,
      c\<lparr>onViewParameters := (onViewParameters c)[i := afterSetMode T c i],
        onViewIndexWithFocus :=
          (if b \<and> isOnViewParameterOfCurrentMode T i c then int i else onViewIndexWithFocus c)\<rparr>)"
proof -
  have u: "uint_of_size i = i" using assms by (intro uint_of_size_small) simp
  have s: "int_of_unsigned i = int i" using assms by (intro int_of_unsigned_small) simp
  show ?thesis
    using assms(1)
    by (simp add: setModeOnViewParameters_body_def u s afterSetMode_def onLabel_def Let_def
        isSet_call)
qed

lemma afterSetMode_cong:
  "handler c' = handler c \<Longrightarrow> length (onViewParameters c') = length (onViewParameters c) \<Longrightarrow>
   onViewParameters c' ! j = onViewParameters c ! j \<Longrightarrow> afterSetMode T c' j = afterSetMode T c j"
  by (simp add: afterSetMode_def isOnViewParameterOfCurrentMode_def Let_def)

lemma setModeOnViewParameters_loop_labels:
  "length (onViewParameters c) < 2 ^ 31 \<Longrightarrow> j < length (onViewParameters c) \<Longrightarrow>
     onViewParameters (setModeOnViewParameters_loop T i b c) ! j
       = (if j < i then onViewParameters c ! j else afterSetMode T c j)"
proof (induction T i b c rule: setModeOnViewParameters_loop.induct)
  case (1 T i b c)
  show ?case
  proof (cases "i < length (onViewParameters c)")
    case False
    then have "setModeOnViewParameters_loop T i b c = c"
      by (simp add: setModeOnViewParameters_loop.simps)
    with False "1.prems" show ?thesis by simp
  next
    case True
    define c1 where "c1 = c\<lparr>onViewParameters := (onViewParameters c)[i := afterSetMode T c i],
        onViewIndexWithFocus :=
          (if b \<and> isOnViewParameterOfCurrentMode T i c then int i else onViewIndexWithFocus c)\<rparr>"
    define b' where "b' = (b \<and> \<not> isOnViewParameterOfCurrentMode T i c)"
    have body: "setModeOnViewParameters_body T i b c = (b', c1)"
      using setModeOnViewParameters_body_eq [OF True "1.prems"(1)] by (simp add: b'_def c1_def)
    have step: "setModeOnViewParameters_loop T i b c = setModeOnViewParameters_loop T (i + 1) b' c1"
      using True body by (simp add: setModeOnViewParameters_loop.simps)
    have len: "length (onViewParameters c1) = length (onViewParameters c)"
      and h: "handler c1 = handler c"
      by (simp_all add: c1_def)
    have ih: "onViewParameters (setModeOnViewParameters_loop T (i + 1) b' c1) ! j
        = (if j < i + 1 then onViewParameters c1 ! j else afterSetMode T c1 j)"
      using "1.IH" [OF True body [symmetric]] "1.prems" len by simp
    show ?thesis
    proof (cases "j \<le> i")
      case True
      then show ?thesis using step ih \<open>i < length (onViewParameters c)\<close>
        by (auto simp: c1_def)
    next
      case False
      then have "onViewParameters c1 ! j = onViewParameters c ! j" by (simp add: c1_def)
      with False show ?thesis using step ih afterSetMode_cong [OF h len] by simp
    qed
  qed
qed

lemma setModeOnViewParameters_loop_focus:
  "length (onViewParameters c) < 2 ^ 31 \<Longrightarrow>
     onViewIndexWithFocus (setModeOnViewParameters_loop T i b c)
       = (if b then
            (if \<exists>k. i \<le> k \<and> k < length (onViewParameters c) \<and> isOnViewParameterOfCurrentMode T k c
             then int (LEAST k. i \<le> k \<and> k < length (onViewParameters c)
                                \<and> isOnViewParameterOfCurrentMode T k c)
             else onViewIndexWithFocus c)
          else onViewIndexWithFocus c)"
proof (induction T i b c rule: setModeOnViewParameters_loop.induct)
  case (1 T i b c)
  let ?n = "length (onViewParameters c)"
  show ?case
  proof (cases "i < ?n")
    case False
    then have "setModeOnViewParameters_loop T i b c = c"
      by (simp add: setModeOnViewParameters_loop.simps)
    with False show ?thesis by auto
  next
    case True
    define c1 where "c1 = c\<lparr>onViewParameters := (onViewParameters c)[i := afterSetMode T c i],
        onViewIndexWithFocus :=
          (if b \<and> isOnViewParameterOfCurrentMode T i c then int i else onViewIndexWithFocus c)\<rparr>"
    define b' where "b' = (b \<and> \<not> isOnViewParameterOfCurrentMode T i c)"
    have body: "setModeOnViewParameters_body T i b c = (b', c1)"
      using setModeOnViewParameters_body_eq [OF True "1.prems"(1)] by (simp add: b'_def c1_def)
    have step: "setModeOnViewParameters_loop T i b c = setModeOnViewParameters_loop T (i + 1) b' c1"
      using True body by (simp add: setModeOnViewParameters_loop.simps)
    have len: "length (onViewParameters c1) = ?n"
      and h: "handler c1 = handler c"
      by (simp_all add: c1_def)
    have cur: "isOnViewParameterOfCurrentMode T k c1 = isOnViewParameterOfCurrentMode T k c" for k
      by (rule isOnViewParameterOfCurrentMode_cong [OF h len])
    have ih: "onViewIndexWithFocus (setModeOnViewParameters_loop T (i + 1) b' c1)
       = (if b' then
            (if \<exists>k. i + 1 \<le> k \<and> k < ?n \<and> isOnViewParameterOfCurrentMode T k c
             then int (LEAST k. i + 1 \<le> k \<and> k < ?n \<and> isOnViewParameterOfCurrentMode T k c)
             else onViewIndexWithFocus c1)
          else onViewIndexWithFocus c1)"
    proof -
      have "length (onViewParameters c1) < 2 ^ 31" using "1.prems" len by simp
      from "1.IH" [OF True body [symmetric] this] show ?thesis by (simp only: len cur)
    qed
    show ?thesis
    proof (cases b)
      case False
      then show ?thesis using step ih by (simp add: b'_def c1_def)
    next
      case b: True
      show ?thesis
      proof (cases "isOnViewParameterOfCurrentMode T i c")
        case cur_i: True
        have "(LEAST k. i \<le> k \<and> k < ?n \<and> isOnViewParameterOfCurrentMode T k c) = i"
          using True cur_i by (intro Least_equality) auto
        moreover have "\<exists>k. i \<le> k \<and> k < ?n \<and> isOnViewParameterOfCurrentMode T k c"
          using True cur_i by blast
        ultimately show ?thesis using step ih b cur_i by (simp add: b'_def c1_def)
      next
        case not_i: False
        have eq: "(i \<le> k \<and> k < ?n \<and> isOnViewParameterOfCurrentMode T k c)
            = (i + 1 \<le> k \<and> k < ?n \<and> isOnViewParameterOfCurrentMode T k c)" for k
          using not_i by (cases "k = i") auto
        have b': "b'" and f: "onViewIndexWithFocus c1 = onViewIndexWithFocus c"
          using b not_i by (simp_all add: b'_def c1_def)
        show ?thesis unfolding step ih eq using b b' f by auto
      qed
    qed
  qed
qed


subsection \<open>The rebuilt vector\<close>

lemma initNOnViewParameters_loop_eq:
  "initNOnViewParameters_loop i n ps = ps @ replicate (nat (n - i)) newEditableDatumLabel"
proof (induction i n ps rule: initNOnViewParameters_loop.induct)
  case (1 i n ps)
  show ?case
  proof (cases "i < n")
    case True
    then have "nat (n - i) = Suc (nat (n - (i + 1)))" by simp
    moreover have "initNOnViewParameters_loop i n ps
        = initNOnViewParameters_loop (i + 1) n (ps @ [newEditableDatumLabel])"
      using True by (subst initNOnViewParameters_loop.simps) simp
    ultimately show ?thesis using True "1.IH" by (simp add: replicate_append_same)
  next
    case False
    then show ?thesis by (subst initNOnViewParameters_loop.simps) simp
  qed
qed

lemma resetControls_eq:
  "resetControls c = c\<lparr>onViewParameters := replicate (nat (nOnViewParameter c)) newEditableDatumLabel,
                        onViewIndexWithFocus := 0, firstMoveInit := False\<rparr>"
  by (simp add: resetControls_def doResetControls_def resetOnViewParameters_def
      configureOnViewParameters_def initNOnViewParameters_def initNOnViewParameters_loop_eq)

text \<open>
  The size of the vector comes from an \<^verbatim>\<open>int\<close>, so after \<^verbatim>\<open>resetControls\<close> it is below
  \<open>2 ^ 31\<close>: the bound under which the properties of the vector are stated.
\<close>

lemma resetControls_length_small:
  "nOnViewParameter c < 2 ^ 31 \<Longrightarrow> length (onViewParameters (resetControls c)) < 2 ^ 31"
  by (simp add: resetControls_eq nat_less_iff)

lemma twoSlotController_eq:
  "twoSlotController =
     \<lparr>handler = seekFirstHandler, init = False, firstMoveInit = False, prevCursorPosition = (0, 0),
      lastControlEnforcedPosition = (0, 0), onViewIndexWithFocus = 0, nOnViewParameter = 2,
      onViewParameters = [newEditableDatumLabel, newEditableDatumLabel], issued = []\<rparr>"
  by (simp add: twoSlotController_def resetControls_eq newDrawSketchController_def numeral_2_eq_2)

lemma threeSlotController_eq:
  "threeSlotController =
     \<lparr>handler = seekFirstHandler, init = False, firstMoveInit = False, prevCursorPosition = (0, 0),
      lastControlEnforcedPosition = (0, 0), onViewIndexWithFocus = 1, nOnViewParameter = 3,
      onViewParameters = [newEditableDatumLabel, newEditableDatumLabel, newEditableDatumLabel],
      issued = []\<rparr>"
  by (simp add: threeSlotController_def resetControls_eq newDrawSketchController_def numeral_3_eq_3)

subsection \<open>Operations that keep the two positions\<close>

lemma samePositions_refl: "samePositions c c"
  by (simp add: samePositions_def)

lemma samePositions_trans: "samePositions a b \<Longrightarrow> samePositions b c \<Longrightarrow> samePositions a c"
  by (simp add: samePositions_def)

lemma samePositions_issued: "samePositions c (c'\<lparr>issued := l\<rparr>) = samePositions c c'"
  by (simp add: samePositions_def)

lemma samePositions_setFocusToOnViewParameter: "samePositions c (setFocusToOnViewParameter i c)"
  by (simp add: samePositions_def setFocusToOnViewParameter_def onLabel_def)

lemma samePositions_afterEnforceControlParameters: "samePositions c (afterEnforceControlParameters c)"
  by (simp add: afterEnforceControlParameters_def samePositions_setFocusToOnViewParameter samePositions_refl)

lemma samePositions_resetControls: "samePositions c (resetControls c)"
  by (simp add: samePositions_def resetControls_def doResetControls_def resetOnViewParameters_def
      configureOnViewParameters_def initNOnViewParameters_def)

lemma samePositions_passFocus_loop:
  "passFocusToNextOnViewParameter_loop T i c = Some c' \<Longrightarrow> samePositions c c'"
proof (induction rule: passFocusToNextOnViewParameter_loop.raw_induct [rotated 1, consumes 1])
  case (1 loop T index c c')
  then show ?case
    by (auto simp: samePositions_setFocusToOnViewParameter samePositions_refl split: if_splits)
qed

lemma toolKeepsPositionsD:
  assumes "toolKeepsPositions T"
  shows "samePositions c (mouseMove T p c)"
    and "samePositions c (preselectAtPoint T p c)"
    and "samePositions c (updateCursor T c)"
    and "samePositions c (reset T c)"
    and "samePositions c (handlerResetControls T c)"
    and "samePositions c (doConstructionMethodChanged T c)"
    and "samePositions c (doChangeDrawSketchHandlerMode T c)"
    and "samePositions c (adaptDrawingToOnViewParameterChange T i v c)"
    and "samePositions c (snd (doEnforceControlParameters T p c))"
  using assms unfolding toolKeepsPositions_def by blast+

lemma samePositions_handler_mouseMove:
  "toolKeepsPositions T \<Longrightarrow> samePositions c (handler_mouseMove T p c)"
  by (simp add: toolKeepsPositionsD handler_mouseMove_def samePositions_issued)

lemma samePositions_finishControlsChanged:
  assumes "toolKeepsPositions T"
  shows "samePositions c (finishControlsChanged T c)"
proof -
  define c1 where "c1 = handler_mouseMove T (prevCursorPosition c) c"
  define c2 where "c2 = handler_preselectAtPoint T (lastControlEnforcedPosition c1) c1"
  define c3 where "c3 = call_doChangeDrawSketchHandlerMode T c2"
  have 1: "samePositions c c1"
    using assms by (simp add: c1_def samePositions_handler_mouseMove)
  have 2: "samePositions c1 c2"
    using assms by (simp add: c2_def toolKeepsPositionsD handler_preselectAtPoint_def samePositions_issued)
  have 3: "samePositions c2 c3"
    using assms by (simp add: c3_def toolKeepsPositionsD call_doChangeDrawSketchHandlerMode_def samePositions_issued)
  have 4: "samePositions c3 (handler_mouseMove T (prevCursorPosition c3) c3)"
    using assms by (simp add: samePositions_handler_mouseMove)
  have "finishControlsChanged T c = c3 \<or> finishControlsChanged T c = handler_mouseMove T (prevCursorPosition c3) c3"
    by (simp add: finishControlsChanged_def c1_def c2_def c3_def Let_def)
  then show ?thesis using 1 2 3 4 by (auto simp: samePositions_def)
qed


lemma samePositions_setModeOnViewParameters: "samePositions c (setModeOnViewParameters T c)"
  using setModeOnViewParameters_shape [of T c] by (auto simp: samePositions_def)

lemma samePositions_mouseMoved: "samePositions c (mouseMoved T q c)"
  using samePositions_setModeOnViewParameters [of c T]
  by (simp add: mouseMoved_def onMouseMoved_def Let_def samePositions_def)

lemma samePositions_initControls: "samePositions c (initControls c)"
  using samePositions_resetControls [of c]
  by (simp add: initControls_def doInitControls_def samePositions_def)

lemma samePositions_passFocusToNextOnViewParameter:
  "passFocusToNextOnViewParameter T c = Some c' \<Longrightarrow> samePositions c c'"
  by (simp add: passFocusToNextOnViewParameter_def Let_def samePositions_passFocus_loop)

lemma samePositions_onViewValueChanged:
  assumes "toolKeepsPositions T"
  shows "samePositions c (onViewValueChanged T i v c)"
proof -
  define c1 where "c1 = onViewValueChanged_focus T i c"
  define c2 where "c2 = call_adaptDrawingToOnViewParameterChange T i v c1"
  have 1: "samePositions c c1"
    by (simp add: c1_def onViewValueChanged_focus_def samePositions_setFocusToOnViewParameter
        samePositions_refl)
  have 2: "samePositions c1 c2"
    using assms
    by (simp add: c2_def call_adaptDrawingToOnViewParameterChange_def toolKeepsPositionsD
        samePositions_issued)
  have 3: "samePositions c2 (finishControlsChanged T c2)"
    using assms by (rule samePositions_finishControlsChanged)
  have "onViewValueChanged T i v c = finishControlsChanged T c2"
    by (simp add: onViewValueChanged_def c1_def c2_def)
  with 1 2 3 show ?thesis by (simp add: samePositions_def)
qed

lemma samePositions_valueChanged:
  assumes "toolKeepsPositions T"
  shows "samePositions c (valueChanged T i v c)"
proof -
  have "samePositions c (onLabel (nat i) (setColor dimConstrColor) c)"
    by (simp add: samePositions_def onLabel_def)
  moreover have "samePositions (onLabel (nat i) (setColor dimConstrColor) c) (valueChanged T i v c)"
    unfolding valueChanged_def using assms by (rule samePositions_onViewValueChanged)
  ultimately show ?thesis by (simp add: samePositions_def)
qed

lemma samePositions_onConstructionMethodChanged:
  assumes "toolKeepsPositions T" and "onConstructionMethodChanged sizes T c = Some c'"
  shows "samePositions c c'"
proof -
  from assms(2) obtain n where n: "ControlAmount_size sizes (constructionMethod (handler c)) = Some n"
    by (auto simp: onConstructionMethodChanged_def split: option.splits)
  define c1 where "c1 = c\<lparr>nOnViewParameter := n\<rparr>"
  define c2 where "c2 = call_doConstructionMethodChanged T c1"
  define c3 where "c3 = handler_updateCursor T c2"
  define c4 where "c4 = handler_reset T c3"
  have 1: "samePositions c c1" by (simp add: c1_def samePositions_def)
  have 2: "samePositions c1 c2"
    using assms(1)
    by (simp add: c2_def call_doConstructionMethodChanged_def toolKeepsPositionsD samePositions_issued)
  have 3: "samePositions c2 c3"
    using assms(1)
    by (simp add: c3_def handler_updateCursor_def toolKeepsPositionsD samePositions_issued)
  have 4: "samePositions c3 c4"
    using assms(1) by (simp add: c4_def handler_reset_def toolKeepsPositionsD samePositions_issued)
  have 5: "samePositions c4 (handler_mouseMove T (prevCursorPosition c4) c4)"
    using assms(1) by (simp add: samePositions_handler_mouseMove)
  have "c' = handler_mouseMove T (prevCursorPosition c4) c4"
    using assms(2) n by (simp add: onConstructionMethodChanged_def c1_def c2_def c3_def c4_def Let_def)
  with 1 2 3 4 5 show ?thesis by (simp add: samePositions_def)
qed

lemma samePositions_afterHandlerModeChanged:
  "toolKeepsPositions T \<Longrightarrow> samePositions c (afterHandlerModeChanged T c)"
  by (simp add: afterHandlerModeChanged_def samePositions_handler_mouseMove samePositions_refl)

lemma samePositions_setMode:
  assumes "toolKeepsPositions T"
  shows "samePositions c (setMode T c)"
proof -
  have 1: "samePositions c (handler_updateCursor T c)"
    using assms by (simp add: handler_updateCursor_def toolKeepsPositionsD samePositions_issued)
  have 2: "samePositions (handler_updateCursor T c) (handler_resetControls T (handler_updateCursor T c))"
    using assms by (simp add: handler_resetControls_def toolKeepsPositionsD samePositions_issued)
  from 1 2 show ?thesis by (simp add: setMode_def samePositions_def)
qed

lemma samePositions_controller_local:
  "samePositions c (initNOnViewParameters n c)"
  "samePositions c (resetOnViewParameters c)"
  "samePositions c (unsetOnViewParameter i c)"
  "samePositions c (adaptParameters c)"
  "samePositions c (onHandlerModeChanged T c)"
  by (simp_all add: samePositions_def initNOnViewParameters_def resetOnViewParameters_def
      configureOnViewParameters_def unsetOnViewParameter_def onLabel_def adaptParameters_def
      onHandlerModeChanged_def samePositions_setModeOnViewParameters [unfolded samePositions_def])

lemma afterEnforceControlParameters_focused:
  assumes "length (onViewParameters c) < 2 ^ 31"
    and "0 \<le> onViewIndexWithFocus c" and "onViewIndexWithFocus c < int (length (onViewParameters c))"
  shows "afterEnforceControlParameters c
         = onLabel (nat (onViewIndexWithFocus c)) (call setFocusToSpinbox) c"
proof -
  have u: "uint_of_int (onViewIndexWithFocus c) = nat (onViewIndexWithFocus c)"
    using assms by (intro uint_of_int_small) simp_all
  have i: "int_of_unsigned (nat (onViewIndexWithFocus c)) = onViewIndexWithFocus c"
    using assms by (subst int_of_unsigned_small) simp_all
  show ?thesis
    using assms u i
    by (simp add: afterEnforceControlParameters_def setFocusToOnViewParameter_def onLabel_def)
qed

subsection \<open>The focus-passing loop returns\<close>

text \<open>
  On a vector shorter than \<open>2 ^ 32\<close> the index never wraps, and
  \<^verbatim>\<open>passFocusToNextOnViewParameter\<close> returns.
\<close>

lemma passFocusToNextOnViewParameter_loop_returns:
  assumes "length (onViewParameters c) < 2 ^ 32"
  shows "\<exists>c'. passFocusToNextOnViewParameter_loop T index c = Some c'"
  using assms
proof (induction "length (onViewParameters c) - index" arbitrary: index)
  case 0
  then have "\<not> index < length (onViewParameters c)" by simp
  then have "passFocusToNextOnViewParameter_loop T index c = Some c"
    by (subst passFocusToNextOnViewParameter_loop.simps) simp
  then show ?case by blast
next
  case (Suc k)
  then have less: "index < length (onViewParameters c)" by simp
  show ?case
  proof (cases "isOnViewParameterOfCurrentMode T index c")
    case True
    with less have "passFocusToNextOnViewParameter_loop T index c
        = Some (setFocusToOnViewParameter index c)"
      by (subst passFocusToNextOnViewParameter_loop.simps) simp
    then show ?thesis by blast
  next
    case False
    from less Suc.prems have step: "(index + 1) mod 2 ^ 32 = index + 1" by simp
    from Suc.hyps(2) have "k = length (onViewParameters c) - (index + 1)" by simp
    from Suc.hyps(1) [OF this Suc.prems]
    obtain c' where "passFocusToNextOnViewParameter_loop T (index + 1) c = Some c'" by blast
    with less False step have "passFocusToNextOnViewParameter_loop T index c = Some c'"
      by (subst passFocusToNextOnViewParameter_loop.simps) simp
    then show ?thesis by blast
  qed
qed

lemma passFocusToNextOnViewParameter_returns:
  "length (onViewParameters c) < 2 ^ 32 \<Longrightarrow> \<exists>c'. passFocusToNextOnViewParameter T c = Some c'"
  by (simp add: passFocusToNextOnViewParameter_def Let_def passFocusToNextOnViewParameter_loop_returns)

subsection \<open>Facts about the examples\<close>

lemma issued_setFocusToOnViewParameter: "issued (setFocusToOnViewParameter k c) = issued c"
  by (simp add: setFocusToOnViewParameter_def onLabel_def)

lemma issued_onViewValueChanged_focus: "issued (onViewValueChanged_focus T i c) = issued c"
  by (simp add: onViewValueChanged_focus_def issued_setFocusToOnViewParameter)

lemma movedController_eq:
  "movedController =
     \<lparr>handler = seekFirstHandler, init = False, firstMoveInit = True, prevCursorPosition = (0, 0),
      lastControlEnforcedPosition = (0, 0), onViewIndexWithFocus = 0, nOnViewParameter = 2,
      onViewParameters = [newEditableDatumLabel, newEditableDatumLabel], issued = []\<rparr>"
  by (simp add: movedController_def twoSlotController_eq)

lemma headerTool_current:
  "isOnViewParameterOfCurrentMode headerTool k c
     \<longleftrightarrow> k < length (onViewParameters c) \<and> state (handler c) = Seek 0"
  by (auto simp: isOnViewParameterOfCurrentMode_def headerTool_def getFirstState_def)

lemma twoStateTool_current:
  "isOnViewParameterOfCurrentMode twoStateTool k c
     \<longleftrightarrow> k < length (onViewParameters c)
         \<and> (if int_of_unsigned k < 2 then Seek 0 else Seek 1) = state (handler c)"
  by (simp add: isOnViewParameterOfCurrentMode_def twoStateTool_def headerTool_def)

subsection \<open>The focus step of a committed value\<close>

text \<open>
  C1, as the header has it. The focus step of \<^verbatim>\<open>onViewValueChanged\<close> looks at the slot
  after the edited one: when slot \<open>i + 1\<close> exists and belongs to the handler's current state,
  it is given the spinbox focus and becomes the index with focus; otherwise the step changes
  nothing. The hook and the finish routine then run on the result. \<open>i\<close> ranges over the
  values of an \<^verbatim>\<open>int\<close>, the vector is shorter than \<open>2 ^ 31\<close>.
\<close>

theorem onViewValueChanged_focus_next:
  assumes "length (onViewParameters c) < 2 ^ 31" and "- (2 ^ 31) \<le> i" and "i < 2 ^ 31"
  shows "(0 \<le> i + 1 \<and> isOnViewParameterOfCurrentMode T (nat (i + 1)) c \<longrightarrow>
            onViewIndexWithFocus (onViewValueChanged_focus T i c) = i + 1
            \<and> onViewParameters (onViewValueChanged_focus T i c)
                = (onViewParameters c)[nat (i + 1)
                     := call setFocusToSpinbox (onViewParameters c ! nat (i + 1))])
       \<and> (\<not> (0 \<le> i + 1 \<and> isOnViewParameterOfCurrentMode T (nat (i + 1)) c) \<longrightarrow>
            onViewValueChanged_focus T i c = c)
       \<and> onViewValueChanged T i v c
           = finishControlsChanged T
               (call_adaptDrawingToOnViewParameterChange T i v (onViewValueChanged_focus T i c))"
proof (cases "0 \<le> i + 1")
  case True
  then have u: "uint_of_int (i + 1) = nat (i + 1)"
    using assms(3) by (intro uint_of_int_small) simp_all
  have s: "int_of_unsigned (nat (i + 1)) = i + 1"
    if "isOnViewParameterOfCurrentMode T (nat (i + 1)) c"
  proof -
    from that have "nat (i + 1) < length (onViewParameters c)"
      by (simp add: isOnViewParameterOfCurrentMode_def)
    with assms(1) have "nat (i + 1) < 2 ^ 31" by simp
    then have "int_of_unsigned (nat (i + 1)) = int (nat (i + 1))" by (rule int_of_unsigned_small)
    with True show ?thesis by simp
  qed
  show ?thesis
    using True s
    by (auto simp: onViewValueChanged_focus_def u setFocusToOnViewParameter_def onLabel_def
        onViewValueChanged_def isOnViewParameterOfCurrentMode_def)
next
  case False
  have "(i + 1) mod 2 ^ 32 = (i + 1 + 2 ^ 32) mod 2 ^ 32"
    by (simp only: mod_add_self2)
  also have "\<dots> = i + 1 + 2 ^ 32"
    using False assms(2) by (intro mod_pos_pos_trivial) simp_all
  finally have "(i + 1) mod 2 ^ 32 = i + 1 + 2 ^ 32" .
  then have "uint_of_int (i + 1) = nat (i + 1 + 2 ^ 32)" by (simp add: uint_of_int_def)
  moreover have "2 ^ 31 \<le> nat (i + 1 + 2 ^ 32)" using assms(2) by simp
  ultimately have "\<not> isOnViewParameterOfCurrentMode T (uint_of_int (i + 1)) c"
    using assms(1) by (simp add: isOnViewParameterOfCurrentMode_def)
  with False show ?thesis
    by (simp add: onViewValueChanged_focus_def onViewValueChanged_def)
qed

theorem onViewValueChanged_focus_next_witness:
  "length (onViewParameters twoSlotController) < 2 ^ 31
   \<and> isOnViewParameterOfCurrentMode headerTool (nat (0 + 1)) twoSlotController
   \<and> onViewIndexWithFocus (onViewValueChanged_focus headerTool 0 twoSlotController) = 1
   \<and> map received (onViewParameters (onViewValueChanged_focus headerTool 0 twoSlotController))
       = [[], [setFocusToSpinbox]]
   \<and> \<not> isOnViewParameterOfCurrentMode headerTool (nat (1 + 1)) twoSlotController
   \<and> onViewValueChanged_focus headerTool 1 twoSlotController = twoSlotController"
proof -
  have l: "length (onViewParameters twoSlotController) < 2 ^ 31"
    by (simp add: twoSlotController_eq)
  have c1: "isOnViewParameterOfCurrentMode headerTool (nat (0 + 1)) twoSlotController"
    by (simp add: headerTool_current twoSlotController_eq seekFirstHandler_def)
  have c2: "\<not> isOnViewParameterOfCurrentMode headerTool (nat (1 + 1)) twoSlotController"
    by (simp add: headerTool_current twoSlotController_eq)
  from onViewValueChanged_focus_next [OF l, of 0 headerTool] c1
  have "onViewIndexWithFocus (onViewValueChanged_focus headerTool 0 twoSlotController) = 1"
    and "map received (onViewParameters (onViewValueChanged_focus headerTool 0 twoSlotController))
       = [[], [setFocusToSpinbox]]"
    by (simp_all add: twoSlotController_eq call_def newEditableDatumLabel_def)
  moreover from onViewValueChanged_focus_next [OF l, of 1 headerTool] c2
  have "onViewValueChanged_focus headerTool 1 twoSlotController = twoSlotController"
    by simp
  ultimately show ?thesis using l c1 c2 by blast
qed

text \<open>
  C1 as stated fails. With two slots, both of the current state, and the focus on slot 0:
  a value committed in slot 0 moves the focus to slot 1, and a value committed in slot 1
  (the last one) leaves the focus on slot 0. In neither case is the focus on the edited slot.
\<close>

theorem onViewValueChanged_focus_counterexample:
  "isOnViewParameterOfCurrentMode headerTool 0 twoSlotController
   \<and> onViewIndexWithFocus twoSlotController = 0
   \<and> onViewIndexWithFocus (onViewValueChanged_focus headerTool 0 twoSlotController) = 1
   \<and> onViewIndexWithFocus (onViewValueChanged headerTool 0 7 twoSlotController) = 1
   \<and> isOnViewParameterOfCurrentMode headerTool 1 twoSlotController
   \<and> onViewIndexWithFocus (onViewValueChanged_focus headerTool 1 twoSlotController) = 0
   \<and> onViewIndexWithFocus (onViewValueChanged headerTool 1 7 twoSlotController) = 0"
proof -
  have t: "mouseMove headerTool = (\<lambda>p c. c)" "preselectAtPoint headerTool = (\<lambda>p c. c)"
    "adaptDrawingToOnViewParameterChange headerTool = (\<lambda>i v c. c)"
    "doChangeDrawSketchHandlerMode headerTool = (\<lambda>c. c)"
    by (simp_all add: headerTool_def)
  have u: "uint_of_int 1 = 1" "uint_of_int 2 = 2" "int_of_unsigned (Suc 0) = 1"
    by (simp_all add: uint_of_int_def int_of_unsigned_def)
  show ?thesis
    by (simp add: onViewValueChanged_def finishControlsChanged_def Let_def isLastState_def
        handler_mouseMove_def handler_preselectAtPoint_def
        call_doChangeDrawSketchHandlerMode_def call_adaptDrawingToOnViewParameterChange_def t u
        onViewValueChanged_focus_def headerTool_current
        setFocusToOnViewParameter_def onLabel_def twoSlotController_eq seekFirstHandler_def)
qed

subsection \<open>Replays of the finish routine\<close>

text \<open>
  C2, as the header has it. \<^verbatim>\<open>onViewValueChanged\<close> calls, in this order, the value hook,
  \<^verbatim>\<open>mouseMove\<close> with the last raw position, \<^verbatim>\<open>preselectAtPoint\<close> with the last enforced
  position and the mode-transition hook, and then \<^verbatim>\<open>mouseMove\<close> once more exactly when the
  handler's state differs from the state read after the first \<^verbatim>\<open>mouseMove\<close>, is not \<^verbatim>\<open>End\<close>,
  and first-movement tracking is set. So \<^verbatim>\<open>mouseMove\<close> is called at most twice. The
  controller that results is the one the handler's functions leave, run in that order.
\<close>

theorem onViewValueChanged_replays:
  "let c0 = call_adaptDrawingToOnViewParameterChange T i v (onViewValueChanged_focus T i c);
       c1 = handler_mouseMove T (prevCursorPosition c0) c0;
       c2 = handler_preselectAtPoint T (lastControlEnforcedPosition c1) c1;
       c3 = call_doChangeDrawSketchHandlerMode T c2;
       again = (state (handler c3) \<noteq> state (handler c1) \<and> state (handler c3) \<noteq> End
                \<and> firstMoveInit c3);
       new = drop (length (issued c)) (issued (onViewValueChanged T i v c))
   in issued (onViewValueChanged T i v c) = issued c @ new
      \<and> new = [AdaptDrawingToOnViewParameterChange i v, MouseMove (prevCursorPosition c0),
                PreselectAtPoint (lastControlEnforcedPosition c1), DoChangeDrawSketchHandlerMode]
               @ (if again then [MouseMove (prevCursorPosition c3)] else [])
      \<and> length (filter isMouseMove new) \<le> 2
      \<and> (length (filter isMouseMove new) = 2 \<longleftrightarrow> again)
      \<and> onViewValueChanged T i v c
          = (if again then handler_mouseMove T (prevCursorPosition c3) c3 else c3)"
  by (simp add: Let_def onViewValueChanged_def finishControlsChanged_def isLastState_def
      handler_mouseMove_def handler_preselectAtPoint_def call_doChangeDrawSketchHandlerMode_def
      call_adaptDrawingToOnViewParameterChange_def issued_onViewValueChanged_focus)

theorem onViewValueChanged_replays_witness:
  "issued (onViewValueChanged transitionTool 0 7 movedController)
     = [AdaptDrawingToOnViewParameterChange 0 7, MouseMove (0, 0), PreselectAtPoint (0, 0),
        DoChangeDrawSketchHandlerMode, MouseMove (0, 0)]
   \<and> issued (onViewValueChanged transitionTool 0 7 twoSlotController)
     = [AdaptDrawingToOnViewParameterChange 0 7, MouseMove (0, 0), PreselectAtPoint (0, 0),
        DoChangeDrawSketchHandlerMode]"
proof -
  have t: "mouseMove transitionTool = (\<lambda>p c. c)" "preselectAtPoint transitionTool = (\<lambda>p c. c)"
    "adaptDrawingToOnViewParameterChange transitionTool = (\<lambda>i v c. c)"
    "doChangeDrawSketchHandlerMode transitionTool = (\<lambda>c. c\<lparr>handler := (handler c)\<lparr>state := Seek 1\<rparr>\<rparr>)"
    by (simp_all add: transitionTool_def headerTool_def)
  have f: "onViewValueChanged_focus transitionTool 0 c = (if isOnViewParameterOfCurrentMode transitionTool 1 c
      then setFocusToOnViewParameter 1 c else c)" for c
    by (simp add: onViewValueChanged_focus_def uint_of_int_def)
  have m: "issued (onViewValueChanged transitionTool 0 7 movedController)
     = [AdaptDrawingToOnViewParameterChange 0 7, MouseMove (0, 0), PreselectAtPoint (0, 0),
        DoChangeDrawSketchHandlerMode, MouseMove (0, 0)]"
    using onViewValueChanged_replays [of transitionTool 0 7 movedController]
    by (simp add: Let_def handler_mouseMove_def handler_preselectAtPoint_def
        call_doChangeDrawSketchHandlerMode_def call_adaptDrawingToOnViewParameterChange_def t f
        setFocusToOnViewParameter_def onLabel_def movedController_eq seekFirstHandler_def)
  have n: "issued (onViewValueChanged transitionTool 0 7 twoSlotController)
     = [AdaptDrawingToOnViewParameterChange 0 7, MouseMove (0, 0), PreselectAtPoint (0, 0),
        DoChangeDrawSketchHandlerMode]"
    using onViewValueChanged_replays [of transitionTool 0 7 twoSlotController]
    by (simp add: Let_def handler_mouseMove_def handler_preselectAtPoint_def
        call_doChangeDrawSketchHandlerMode_def call_adaptDrawingToOnViewParameterChange_def t f
        setFocusToOnViewParameter_def onLabel_def twoSlotController_eq seekFirstHandler_def)
  from m n show ?thesis by simp
qed

text \<open>
  C2 as stated fails. The state is sampled after the first replay, so a change of state made
  by the first replay itself does not count: here the handler is in its first state before
  the replay and in its second state after the three steps, it is not at \<^verbatim>\<open>End\<close>, the first
  movement has occurred, and \<^verbatim>\<open>mouseMove\<close> is called once only.
\<close>

theorem finishControlsChanged_replay_counterexample:
  "state (handler movedController) = Seek 0
   \<and> state (handler (onViewValueChanged advancingTool 0 7 movedController)) = Seek 1
   \<and> firstMoveInit (onViewValueChanged advancingTool 0 7 movedController)
   \<and> issued (onViewValueChanged advancingTool 0 7 movedController)
       = [AdaptDrawingToOnViewParameterChange 0 7, MouseMove (0, 0), PreselectAtPoint (0, 0),
          DoChangeDrawSketchHandlerMode]
   \<and> length (filter isMouseMove (issued (onViewValueChanged advancingTool 0 7 movedController))) = 1"
proof -
  have t: "mouseMove advancingTool = (\<lambda>p c. c\<lparr>handler := (handler c)\<lparr>state := Seek 1\<rparr>\<rparr>)"
    "preselectAtPoint advancingTool = (\<lambda>p c. c)"
    "adaptDrawingToOnViewParameterChange advancingTool = (\<lambda>i v c. c)"
    "doChangeDrawSketchHandlerMode advancingTool = (\<lambda>c. c)"
    by (simp_all add: advancingTool_def headerTool_def)
  have f: "onViewValueChanged_focus advancingTool 0 c = (if isOnViewParameterOfCurrentMode advancingTool 1 c
      then setFocusToOnViewParameter 1 c else c)" for c
    by (simp add: onViewValueChanged_focus_def uint_of_int_def)
  show ?thesis
    by (simp add: onViewValueChanged_def finishControlsChanged_def Let_def isLastState_def
        handler_mouseMove_def handler_preselectAtPoint_def
        call_doChangeDrawSketchHandlerMode_def call_adaptDrawingToOnViewParameterChange_def t f
        setFocusToOnViewParameter_def onLabel_def movedController_eq seekFirstHandler_def)
qed

subsection \<open>Change of the construction method\<close>

text \<open>
  C3. \<^verbatim>\<open>onConstructionMethodChanged\<close> stores the size the mode table gives for the handler's
  construction method, then calls the construction-method-changed hook (which sees the new
  size), then \<^verbatim>\<open>updateCursor\<close>, then \<^verbatim>\<open>reset\<close>, then \<^verbatim>\<open>mouseMove\<close> with the last raw
  position, and makes no other call: the replay is the last call, after the reset.
\<close>

theorem onConstructionMethodChanged_order:
  assumes "ControlAmount_size sizes (constructionMethod (handler c)) = Some n"
  shows "let c1 = c\<lparr>nOnViewParameter := n\<rparr>;
             c2 = call_doConstructionMethodChanged T c1;
             c3 = handler_updateCursor T c2;
             c4 = handler_reset T c3;
             c5 = handler_mouseMove T (prevCursorPosition c4) c4
         in onConstructionMethodChanged sizes T c = Some c5
            \<and> issued c5 = issued c @ [DoConstructionMethodChanged, UpdateCursor, Reset,
                                      MouseMove (prevCursorPosition c4)]"
  using assms
  by (simp add: onConstructionMethodChanged_def Let_def handler_mouseMove_def handler_reset_def
      handler_updateCursor_def call_doConstructionMethodChanged_def)

theorem onConstructionMethodChanged_order_witness:
  "ControlAmount_size [2, 3] (constructionMethod (handler switchedController)) = Some 3
   \<and> map_option nOnViewParameter (onConstructionMethodChanged [2, 3] headerTool switchedController)
       = Some 3
   \<and> map_option issued (onConstructionMethodChanged [2, 3] headerTool switchedController)
       = Some [DoConstructionMethodChanged, UpdateCursor, Reset, MouseMove (0, 0)]"
proof -
  have sw: "switchedController =
     \<lparr>handler = \<lparr>state = Seek 0, continuousMode = False, constructionMethod = 1\<rparr>,
      init = False, firstMoveInit = False, prevCursorPosition = (0, 0),
      lastControlEnforcedPosition = (0, 0), onViewIndexWithFocus = 0, nOnViewParameter = 2,
      onViewParameters = [newEditableDatumLabel, newEditableDatumLabel], issued = []\<rparr>"
    by (simp add: switchedController_def twoSlotController_eq seekFirstHandler_def)
  have t: "ControlAmount_size [2, 3] (constructionMethod (handler switchedController)) = Some 3"
    by (simp add: ControlAmount_size_def sw)
  have "map_option nOnViewParameter (onConstructionMethodChanged [2, 3] headerTool switchedController)
       = Some 3
   \<and> map_option issued (onConstructionMethodChanged [2, 3] headerTool switchedController)
       = Some [DoConstructionMethodChanged, UpdateCursor, Reset, MouseMove (0, 0)]"
    using onConstructionMethodChanged_order [OF t, of headerTool]
    by (simp add: Let_def sw handler_mouseMove_def handler_reset_def
        handler_updateCursor_def call_doConstructionMethodChanged_def headerTool_def)
  with t show ?thesis by blast
qed

subsection \<open>Activation by mode\<close>

text \<open>
  C4. After \<^verbatim>\<open>setModeOnViewParameters\<close> on a vector shorter than \<open>2 ^ 31\<close>: a slot that does
  not belong to the handler's current state has received \<^verbatim>\<open>stopEdit\<close>, followed by
  \<^verbatim>\<open>deactivate\<close> unless its value is set and the handler is not at \<^verbatim>\<open>End\<close>; a slot that
  belongs to it has received \<^verbatim>\<open>activate\<close>, \<^verbatim>\<open>setPoints\<close> with two zero vectors and
  \<^verbatim>\<open>startEdit\<close> with value zero; the index with focus is the lowest index of a slot of the
  current state, or \<open>- 1\<close> when there is none. The focus is one index, so at most one slot
  has it.
\<close>

theorem setModeOnViewParameters_activation:
  assumes "length (onViewParameters c) < 2 ^ 31"
  shows "length (onViewParameters (setModeOnViewParameters T c)) = length (onViewParameters c)
    \<and> (\<forall>i < length (onViewParameters c). \<not> isOnViewParameterOfCurrentMode T i c \<longrightarrow>
          onViewParameters (setModeOnViewParameters T c) ! i
            = (if \<not> isSet (onViewParameters c ! i) \<or> state (handler c) = End
               then call deactivate (call stopEdit (onViewParameters c ! i))
               else call stopEdit (onViewParameters c ! i)))
    \<and> (\<forall>i < length (onViewParameters c). isOnViewParameterOfCurrentMode T i c \<longrightarrow>
          onViewParameters (setModeOnViewParameters T c) ! i
            = call (startEdit 0) (call (setPoints (0, 0, 0) (0, 0, 0))
                (call activate (onViewParameters c ! i))))
    \<and> ((\<forall>i < length (onViewParameters c). \<not> isOnViewParameterOfCurrentMode T i c) \<longrightarrow>
          onViewIndexWithFocus (setModeOnViewParameters T c) = - 1)
    \<and> (\<forall>k < length (onViewParameters c).
          isOnViewParameterOfCurrentMode T k c \<and> (\<forall>j < k. \<not> isOnViewParameterOfCurrentMode T j c) \<longrightarrow>
          onViewIndexWithFocus (setModeOnViewParameters T c) = int k)
    \<and> - 1 \<le> onViewIndexWithFocus (setModeOnViewParameters T c)
    \<and> onViewIndexWithFocus (setModeOnViewParameters T c) < int (length (onViewParameters c))"
proof -
  let ?n = "length (onViewParameters c)"
  let ?c0 = "c\<lparr>onViewIndexWithFocus := - 1\<rparr>"
  let ?P = "\<lambda>k. 0 \<le> k \<and> k < ?n \<and> isOnViewParameterOfCurrentMode T k c"
  have cur: "isOnViewParameterOfCurrentMode T k ?c0 = isOnViewParameterOfCurrentMode T k c" for k
    by (simp add: isOnViewParameterOfCurrentMode_def)
  have len: "length (onViewParameters (setModeOnViewParameters T c)) = ?n"
    using setModeOnViewParameters_shape [of T c] by auto
  have lab: "onViewParameters (setModeOnViewParameters T c) ! i = afterSetMode T c i" if "i < ?n" for i
  proof -
    have "onViewParameters (setModeOnViewParameters_loop T 0 True ?c0) ! i = afterSetMode T ?c0 i"
      using setModeOnViewParameters_loop_labels [of ?c0 i T 0 True] assms that by simp
    moreover have "afterSetMode T ?c0 i = afterSetMode T c i"
      by (rule afterSetMode_cong) simp_all
    ultimately show ?thesis by (simp add: setModeOnViewParameters_def)
  qed
  have foc: "onViewIndexWithFocus (setModeOnViewParameters T c)
      = (if \<exists>k. ?P k then int (LEAST k. ?P k) else - 1)"
    using setModeOnViewParameters_loop_focus [of ?c0 T 0 True] assms
    by (simp add: setModeOnViewParameters_def cur)
  have a: "\<forall>i < ?n. \<not> isOnViewParameterOfCurrentMode T i c \<longrightarrow>
          onViewParameters (setModeOnViewParameters T c) ! i
            = (if \<not> isSet (onViewParameters c ! i) \<or> state (handler c) = End
               then call deactivate (call stopEdit (onViewParameters c ! i))
               else call stopEdit (onViewParameters c ! i))"
    by (simp add: lab afterSetMode_def Let_def)
  have b: "\<forall>i < ?n. isOnViewParameterOfCurrentMode T i c \<longrightarrow>
          onViewParameters (setModeOnViewParameters T c) ! i
            = call (startEdit 0) (call (setPoints (0, 0, 0) (0, 0, 0))
                (call activate (onViewParameters c ! i)))"
    by (simp add: lab afterSetMode_def Let_def)
  have none: "(\<forall>i < ?n. \<not> isOnViewParameterOfCurrentMode T i c) \<longrightarrow>
          onViewIndexWithFocus (setModeOnViewParameters T c) = - 1"
    by (auto simp: foc)
  have first: "\<forall>k < ?n.
          isOnViewParameterOfCurrentMode T k c \<and> (\<forall>j < k. \<not> isOnViewParameterOfCurrentMode T j c) \<longrightarrow>
          onViewIndexWithFocus (setModeOnViewParameters T c) = int k"
  proof (intro allI impI)
    fix k assume k: "k < ?n"
      and m: "isOnViewParameterOfCurrentMode T k c \<and> (\<forall>j < k. \<not> isOnViewParameterOfCurrentMode T j c)"
    have "(LEAST k. ?P k) = k"
    proof (rule Least_equality)
      show "?P k" using k m by simp
      show "k \<le> y" if "?P y" for y using that m by (meson not_le_imp_less)
    qed
    moreover have "\<exists>k. ?P k" using k m by blast
    ultimately show "onViewIndexWithFocus (setModeOnViewParameters T c) = int k"
      by (simp only: foc if_True)
  qed
  have range: "- 1 \<le> onViewIndexWithFocus (setModeOnViewParameters T c)
      \<and> onViewIndexWithFocus (setModeOnViewParameters T c) < int ?n"
  proof (cases "\<exists>k. ?P k")
    case True
    then have "?P (LEAST k. ?P k)" by (rule LeastI_ex)
    with True show ?thesis by (simp add: foc)
  next
    case False
    then have "onViewIndexWithFocus (setModeOnViewParameters T c) = - 1"
      by (simp only: foc if_False)
    then show ?thesis by simp
  qed
  from len a b none first range show ?thesis by blast
qed

theorem setModeOnViewParameters_activation_witness:
  "length (onViewParameters threeSlotController) < 2 ^ 31
   \<and> isOnViewParameterOfCurrentMode twoStateTool 0 threeSlotController
   \<and> isOnViewParameterOfCurrentMode twoStateTool 1 threeSlotController
   \<and> \<not> isOnViewParameterOfCurrentMode twoStateTool 2 threeSlotController
   \<and> onViewIndexWithFocus (setModeOnViewParameters twoStateTool threeSlotController) = 0
   \<and> received (onViewParameters (setModeOnViewParameters twoStateTool threeSlotController) ! 0)
       = [activate, setPoints (0, 0, 0) (0, 0, 0), startEdit 0]
   \<and> received (onViewParameters (setModeOnViewParameters twoStateTool threeSlotController) ! 1)
       = [activate, setPoints (0, 0, 0) (0, 0, 0), startEdit 0]
   \<and> received (onViewParameters (setModeOnViewParameters twoStateTool threeSlotController) ! 2)
       = [stopEdit, deactivate]"
proof -
  have i: "int_of_unsigned 0 = 0" "int_of_unsigned (Suc 0) = 1" "int_of_unsigned 2 = 2"
    by (simp_all add: int_of_unsigned_def)
  have c0: "isOnViewParameterOfCurrentMode twoStateTool 0 threeSlotController"
    and c1: "isOnViewParameterOfCurrentMode twoStateTool 1 threeSlotController"
    and c2: "\<not> isOnViewParameterOfCurrentMode twoStateTool 2 threeSlotController"
    by (simp_all add: twoStateTool_current i threeSlotController_eq seekFirstHandler_def)
  have l: "length (onViewParameters threeSlotController) = 3"
    by (simp add: threeSlotController_eq)
  then have small: "length (onViewParameters threeSlotController) < 2 ^ 31" by simp
  note act = setModeOnViewParameters_activation [OF small, of twoStateTool]
  have p: "0 < length (onViewParameters threeSlotController)"
    "1 < length (onViewParameters threeSlotController)"
    "2 < length (onViewParameters threeSlotController)"
    by (simp_all add: l)
  from act have out: "\<forall>i < length (onViewParameters threeSlotController).
      \<not> isOnViewParameterOfCurrentMode twoStateTool i threeSlotController \<longrightarrow>
          onViewParameters (setModeOnViewParameters twoStateTool threeSlotController) ! i
            = (if \<not> isSet (onViewParameters threeSlotController ! i)
                  \<or> state (handler threeSlotController) = End
               then call deactivate (call stopEdit (onViewParameters threeSlotController ! i))
               else call stopEdit (onViewParameters threeSlotController ! i))"
    and inside: "\<forall>i < length (onViewParameters threeSlotController).
      isOnViewParameterOfCurrentMode twoStateTool i threeSlotController \<longrightarrow>
          onViewParameters (setModeOnViewParameters twoStateTool threeSlotController) ! i
            = call (startEdit 0) (call (setPoints (0, 0, 0) (0, 0, 0))
                (call activate (onViewParameters threeSlotController ! i)))"
    and first: "\<forall>k < length (onViewParameters threeSlotController).
      isOnViewParameterOfCurrentMode twoStateTool k threeSlotController
        \<and> (\<forall>j < k. \<not> isOnViewParameterOfCurrentMode twoStateTool j threeSlotController) \<longrightarrow>
          onViewIndexWithFocus (setModeOnViewParameters twoStateTool threeSlotController) = int k"
    by blast+
  have f: "onViewIndexWithFocus (setModeOnViewParameters twoStateTool threeSlotController) = 0"
    using first [rule_format, of 0] p(1) c0 by simp
  have r0: "received (onViewParameters (setModeOnViewParameters twoStateTool threeSlotController) ! 0)
       = [activate, setPoints (0, 0, 0) (0, 0, 0), startEdit 0]"
    using inside [rule_format, OF p(1) c0]
    by (simp add: call_def threeSlotController_eq newEditableDatumLabel_def)
  have r1: "received (onViewParameters (setModeOnViewParameters twoStateTool threeSlotController) ! 1)
       = [activate, setPoints (0, 0, 0) (0, 0, 0), startEdit 0]"
    using inside [rule_format, OF p(2) c1]
    by (simp add: call_def threeSlotController_eq newEditableDatumLabel_def)
  have r2: "received (onViewParameters (setModeOnViewParameters twoStateTool threeSlotController) ! 2)
       = [stopEdit, deactivate]"
    using out [rule_format, OF p(3) c2]
    by (simp add: call_def threeSlotController_eq newEditableDatumLabel_def)
  from small c0 c1 c2 f r0 r1 r2 show ?thesis by blast
qed

subsection \<open>Passing the focus on\<close>

text \<open>
  C5 fails on the header. \<^verbatim>\<open>passFocusToNextOnViewParameter\<close> restarts at index 0 only when
  the focus is on the last slot; from any other slot it searches upwards and stops at the end
  of the vector. With three slots, the first two of the current state, and the focus on
  slot 1, the call changes nothing, although slot 0 is the next slot of the current state in
  circular order.
\<close>

theorem passFocusToNextOnViewParameter_not_circular:
  "onViewIndexWithFocus threeSlotController = 1
   \<and> isOnViewParameterOfCurrentMode twoStateTool 0 threeSlotController
   \<and> isOnViewParameterOfCurrentMode twoStateTool 1 threeSlotController
   \<and> \<not> isOnViewParameterOfCurrentMode twoStateTool 2 threeSlotController
   \<and> passFocusToNextOnViewParameter twoStateTool threeSlotController = Some threeSlotController"
proof -
  have i: "int_of_unsigned 0 = 0" "int_of_unsigned (Suc 0) = 1" "int_of_unsigned 2 = 2"
    by (simp_all add: int_of_unsigned_def)
  have c0: "isOnViewParameterOfCurrentMode twoStateTool 0 threeSlotController"
    and c1: "isOnViewParameterOfCurrentMode twoStateTool 1 threeSlotController"
    and c2: "\<not> isOnViewParameterOfCurrentMode twoStateTool 2 threeSlotController"
    by (simp_all add: twoStateTool_current i threeSlotController_eq seekFirstHandler_def)
  have l: "length (onViewParameters threeSlotController) = 3"
    and f: "onViewIndexWithFocus threeSlotController = 1"
    by (simp_all add: threeSlotController_eq)
  have "passFocusToNextOnViewParameter_loop twoStateTool 3 threeSlotController = Some threeSlotController"
    by (subst passFocusToNextOnViewParameter_loop.simps) (simp add: l)
  then have "passFocusToNextOnViewParameter_loop twoStateTool 2 threeSlotController = Some threeSlotController"
    by (subst passFocusToNextOnViewParameter_loop.simps) (simp add: l c2)
  then have "passFocusToNextOnViewParameter twoStateTool threeSlotController = Some threeSlotController"
    by (simp add: passFocusToNextOnViewParameter_def Let_def f l uint_of_int_def)
  with f c0 c1 c2 show ?thesis by blast
qed

text \<open>
  The three-slot scenario does hold: with three slots of the current state and the focus
  on slot 1, one call moves the focus to slot 2 and a second call to slot 0.
\<close>

lemma passFocusToNextOnViewParameter_scenario:
  "passFocusToNextOnViewParameter headerTool threeSlotController
     = Some (setFocusToOnViewParameter 2 threeSlotController)
   \<and> onViewIndexWithFocus (setFocusToOnViewParameter 2 threeSlotController) = 2
   \<and> passFocusToNextOnViewParameter headerTool (setFocusToOnViewParameter 2 threeSlotController)
     = Some (setFocusToOnViewParameter 0 (setFocusToOnViewParameter 2 threeSlotController))
   \<and> onViewIndexWithFocus
       (setFocusToOnViewParameter 0 (setFocusToOnViewParameter 2 threeSlotController)) = 0"
proof -
  let ?c = "setFocusToOnViewParameter 2 threeSlotController"
  have i: "int_of_unsigned 0 = 0" "int_of_unsigned 2 = 2"
    by (simp_all add: int_of_unsigned_def)
  have l: "length (onViewParameters threeSlotController) = 3"
    and f: "onViewIndexWithFocus threeSlotController = 1"
    and h: "state (handler threeSlotController) = Seek 0"
    by (simp_all add: threeSlotController_eq seekFirstHandler_def)
  have l': "length (onViewParameters ?c) = 3" and f': "onViewIndexWithFocus ?c = 2"
    and h': "state (handler ?c) = Seek 0"
    by (simp_all add: setFocusToOnViewParameter_def onLabel_def l h i)
  have 1: "passFocusToNextOnViewParameter_loop headerTool 2 threeSlotController = Some ?c"
    by (subst passFocusToNextOnViewParameter_loop.simps) (simp add: l h headerTool_current)
  have 2: "passFocusToNextOnViewParameter_loop headerTool 0 ?c = Some (setFocusToOnViewParameter 0 ?c)"
    by (subst passFocusToNextOnViewParameter_loop.simps) (simp add: l' h' headerTool_current)
  have 3: "onViewIndexWithFocus (setFocusToOnViewParameter 0 ?c) = 0"
    by (simp add: setFocusToOnViewParameter_def [of 0] l' i onLabel_def)
  show ?thesis
    using 1 2 3 f'
    by (simp add: passFocusToNextOnViewParameter_def Let_def f l f' l' uint_of_int_def)
qed

subsection \<open>Reset of the controls\<close>

text \<open>
  C6. For a construction method \<open>M\<close> of the mode table with a size \<open>n\<close> that is not negative,
  and the cached size set to \<open>n\<close>: after \<^verbatim>\<open>resetControls\<close> the vector consists of exactly \<open>n\<close>
  newly constructed controls, whatever it held before, first-movement tracking is clear, and
  a second \<^verbatim>\<open>resetControls\<close> gives the same controller.
\<close>

theorem resetControls_rebuilds:
  assumes "ControlAmount_size sizes M = Some n" and "nOnViewParameter c = n" and "0 \<le> n"
  shows "onViewParameters (resetControls c) = replicate (nat n) newEditableDatumLabel
         \<and> int (length (onViewParameters (resetControls c))) = n
         \<and> \<not> firstMoveInit (resetControls c)
         \<and> resetControls (resetControls c) = resetControls c"
  using assms by (simp add: resetControls_eq)

theorem resetControls_rebuilds_witness:
  "ControlAmount_size [2, 3] 1 = Some 3
   \<and> nOnViewParameter (twoSlotController\<lparr>nOnViewParameter := 3\<rparr>) = 3
   \<and> length (onViewParameters twoSlotController) = 2
   \<and> onViewParameters (resetControls (twoSlotController\<lparr>nOnViewParameter := 3\<rparr>))
       = [newEditableDatumLabel, newEditableDatumLabel, newEditableDatumLabel]
   \<and> \<not> firstMoveInit (resetControls (twoSlotController\<lparr>nOnViewParameter := 3\<rparr>))
   \<and> resetControls (resetControls (twoSlotController\<lparr>nOnViewParameter := 3\<rparr>))
       = resetControls (twoSlotController\<lparr>nOnViewParameter := 3\<rparr>)"
proof -
  have t: "ControlAmount_size [2, 3] 1 = Some 3" by (simp add: ControlAmount_size_def)
  have n: "nOnViewParameter (twoSlotController\<lparr>nOnViewParameter := 3\<rparr>) = 3" by simp
  have two: "length (onViewParameters twoSlotController) = 2"
    by (simp add: twoSlotController_def resetControls_eq newDrawSketchController_def)
  have three: "replicate (nat 3) newEditableDatumLabel
      = [newEditableDatumLabel, newEditableDatumLabel, newEditableDatumLabel]"
    by (simp add: numeral_3_eq_3)
  show ?thesis
    using resetControls_rebuilds [OF t n] t two three by simp
qed

subsection \<open>The two cursor positions\<close>

text \<open>
  C7. \<^verbatim>\<open>enforceControlParameters\<close> runs the enforcement hook on the controller in which
  \<^verbatim>\<open>prevCursorPosition\<close> already is the incoming position, stores the position the hook
  returns in \<^verbatim>\<open>lastControlEnforcedPosition\<close>, and then gives the spinbox focus to the slot
  with focus when there is one (index not negative and inside the vector; nothing happens
  for an index that is negative or outside the vector). And when no
  function of the tool writes the two positions, every other member function of the
  controller leaves them as they were: the header writes them nowhere else.
\<close>

theorem positions_written_only_by_enforceControlParameters:
  assumes tool: "toolKeepsPositions T"
    and hook: "doEnforceControlParameters T p (c\<lparr>prevCursorPosition := p\<rparr>) = (p', c')"
    and size: "length (onViewParameters c') < 2 ^ 31"
  shows "fst (enforceControlParameters T p c) = p'
    \<and> prevCursorPosition (snd (enforceControlParameters T p c)) = p
    \<and> lastControlEnforcedPosition (snd (enforceControlParameters T p c)) = p'
    \<and> issued (snd (enforceControlParameters T p c)) = issued c @ [DoEnforceControlParameters p]
    \<and> (0 \<le> onViewIndexWithFocus c' \<and> onViewIndexWithFocus c' < int (length (onViewParameters c'))
         \<longrightarrow> onViewParameters (snd (enforceControlParameters T p c))
               = (onViewParameters c')[nat (onViewIndexWithFocus c')
                    := call setFocusToSpinbox (onViewParameters c' ! nat (onViewIndexWithFocus c'))]
             \<and> onViewIndexWithFocus (snd (enforceControlParameters T p c)) = onViewIndexWithFocus c')
    \<and> (onViewIndexWithFocus c' < 0
           \<or> int (length (onViewParameters c')) \<le> onViewIndexWithFocus c'
              \<and> onViewIndexWithFocus c' < 2 ^ 32
         \<longrightarrow> onViewParameters (snd (enforceControlParameters T p c)) = onViewParameters c'
             \<and> onViewIndexWithFocus (snd (enforceControlParameters T p c)) = onViewIndexWithFocus c')
    \<and> samePositions d (initControls d)
    \<and> samePositions d (resetControls d)
    \<and> samePositions d (mouseMoved T q d)
    \<and> (\<forall>d'. onConstructionMethodChanged sizes T d = Some d' \<longrightarrow> samePositions d d')
    \<and> samePositions d (onViewValueChanged T i v d)
    \<and> samePositions d (valueChanged T i v d)
    \<and> samePositions d (finishControlsChanged T d)
    \<and> samePositions d (afterHandlerModeChanged T d)
    \<and> samePositions d (onHandlerModeChanged T d)
    \<and> samePositions d (adaptParameters d)
    \<and> (\<forall>d'. tabShortcut T d = Some d' \<longrightarrow> samePositions d d')
    \<and> (\<forall>d'. passFocusToNextOnViewParameter T d = Some d' \<longrightarrow> samePositions d d')
    \<and> samePositions d (setModeOnViewParameters T d)
    \<and> samePositions d (setFocusToOnViewParameter k d)
    \<and> samePositions d (unsetOnViewParameter k d)
    \<and> samePositions d (initNOnViewParameters n d)
    \<and> samePositions d (resetOnViewParameters d)
    \<and> samePositions d (setMode T d)
    \<and> samePositions d (afterEnforceControlParameters d)"
proof -
  define c3 where "c3 = c'\<lparr>issued := issued c @ [DoEnforceControlParameters p],
                           lastControlEnforcedPosition := p'\<rparr>"
  have run: "enforceControlParameters T p c = (p', afterEnforceControlParameters c3)"
    using hook
    by (simp add: enforceControlParameters_def call_doEnforceControlParameters_def c3_def Let_def)
  have kept: "samePositions (c\<lparr>prevCursorPosition := p\<rparr>) c'"
    using toolKeepsPositionsD(9) [OF tool, of "c\<lparr>prevCursorPosition := p\<rparr>" p] hook by simp
  have after: "samePositions c3 (afterEnforceControlParameters c3)"
    by (rule samePositions_afterEnforceControlParameters)
  have e1: "fst (enforceControlParameters T p c) = p'" by (simp add: run)
  have e2: "prevCursorPosition (snd (enforceControlParameters T p c)) = p"
    using kept after by (simp add: run samePositions_def c3_def)
  have e3: "lastControlEnforcedPosition (snd (enforceControlParameters T p c)) = p'"
    using after by (simp add: run samePositions_def c3_def)
  have e4: "issued (snd (enforceControlParameters T p c)) = issued c @ [DoEnforceControlParameters p]"
    by (simp add: run afterEnforceControlParameters_def setFocusToOnViewParameter_def onLabel_def
        c3_def)
  have e5: "onViewParameters (snd (enforceControlParameters T p c))
               = (onViewParameters c')[nat (onViewIndexWithFocus c')
                    := call setFocusToSpinbox (onViewParameters c' ! nat (onViewIndexWithFocus c'))]
             \<and> onViewIndexWithFocus (snd (enforceControlParameters T p c)) = onViewIndexWithFocus c'"
    if "0 \<le> onViewIndexWithFocus c' \<and> onViewIndexWithFocus c' < int (length (onViewParameters c'))"
    using afterEnforceControlParameters_focused [of c3] that size
    by (simp add: run c3_def onLabel_def)
  have e6: "onViewParameters (snd (enforceControlParameters T p c)) = onViewParameters c'
             \<and> onViewIndexWithFocus (snd (enforceControlParameters T p c)) = onViewIndexWithFocus c'"
    if "onViewIndexWithFocus c' < 0
         \<or> int (length (onViewParameters c')) \<le> onViewIndexWithFocus c'
            \<and> onViewIndexWithFocus c' < 2 ^ 32"
  proof (cases "onViewIndexWithFocus c' < 0")
    case True
    then show ?thesis by (simp add: run afterEnforceControlParameters_def c3_def)
  next
    case False
    with that have big: "int (length (onViewParameters c')) \<le> onViewIndexWithFocus c'"
      and "onViewIndexWithFocus c' < 2 ^ 32" by simp_all
    with False have "uint_of_int (onViewIndexWithFocus c') = nat (onViewIndexWithFocus c')"
      by (intro uint_of_int_small) simp_all
    moreover from big have "\<not> nat (onViewIndexWithFocus c') < length (onViewParameters c')"
      by linarith
    ultimately show ?thesis
      by (simp add: run afterEnforceControlParameters_def setFocusToOnViewParameter_def c3_def)
  qed
  have f1: "\<forall>d'. onConstructionMethodChanged sizes T d = Some d' \<longrightarrow> samePositions d d'"
    using samePositions_onConstructionMethodChanged [OF tool] by blast
  have f2: "\<forall>d'. passFocusToNextOnViewParameter T d = Some d' \<longrightarrow> samePositions d d'"
    using samePositions_passFocusToNextOnViewParameter by blast
  have f3: "\<forall>d'. tabShortcut T d = Some d' \<longrightarrow> samePositions d d'"
    using f2 by (simp add: tabShortcut_def)
  note frame = samePositions_initControls samePositions_resetControls samePositions_mouseMoved f1
    samePositions_onViewValueChanged [OF tool] samePositions_valueChanged [OF tool]
    samePositions_finishControlsChanged [OF tool]
    samePositions_afterHandlerModeChanged [OF tool] samePositions_controller_local f3 f2
    samePositions_setModeOnViewParameters samePositions_setFocusToOnViewParameter
    samePositions_setMode [OF tool] samePositions_afterEnforceControlParameters
  have e5': "0 \<le> onViewIndexWithFocus c' \<and> onViewIndexWithFocus c' < int (length (onViewParameters c'))
         \<longrightarrow> onViewParameters (snd (enforceControlParameters T p c))
               = (onViewParameters c')[nat (onViewIndexWithFocus c')
                    := call setFocusToSpinbox (onViewParameters c' ! nat (onViewIndexWithFocus c'))]
             \<and> onViewIndexWithFocus (snd (enforceControlParameters T p c)) = onViewIndexWithFocus c'"
    using e5 by blast
  have e6': "onViewIndexWithFocus c' < 0
           \<or> int (length (onViewParameters c')) \<le> onViewIndexWithFocus c'
              \<and> onViewIndexWithFocus c' < 2 ^ 32
         \<longrightarrow> onViewParameters (snd (enforceControlParameters T p c)) = onViewParameters c'
             \<and> onViewIndexWithFocus (snd (enforceControlParameters T p c)) = onViewIndexWithFocus c'"
    using e6 by blast
  show ?thesis
    by (intro conjI) (rule e1 e2 e3 e4 e5' e6' frame)+
qed

theorem positions_written_only_by_enforceControlParameters_witness:
  "toolKeepsPositions lockedTool
   \<and> doEnforceControlParameters lockedTool (10, 10) (twoSlotController\<lparr>prevCursorPosition := (10, 10)\<rparr>)
       = ((5, 10), twoSlotController\<lparr>prevCursorPosition := (10, 10)\<rparr>)
   \<and> fst (enforceControlParameters lockedTool (10, 10) twoSlotController) = (5, 10)
   \<and> prevCursorPosition (snd (enforceControlParameters lockedTool (10, 10) twoSlotController)) = (10, 10)
   \<and> lastControlEnforcedPosition (snd (enforceControlParameters lockedTool (10, 10) twoSlotController))
       = (5, 10)
   \<and> map received (onViewParameters (snd (enforceControlParameters lockedTool (10, 10) twoSlotController)))
       = [[setFocusToSpinbox], []]
   \<and> samePositions twoSlotController (onViewValueChanged lockedTool 0 7 twoSlotController)
   \<and> samePositions twoSlotController (mouseMoved lockedTool (1, 1) twoSlotController)"
proof -
  let ?c1 = "twoSlotController\<lparr>prevCursorPosition := (10, 10)\<rparr>"
  have k: "toolKeepsPositions lockedTool"
    by (simp add: toolKeepsPositions_def lockedTool_def headerTool_def samePositions_def)
  have h: "doEnforceControlParameters lockedTool (10, 10) ?c1 = ((5, 10), ?c1)"
    by (simp add: lockedTool_def headerTool_def)
  have s: "length (onViewParameters ?c1) < 2 ^ 31"
    by (simp add: twoSlotController_eq)
  note w = positions_written_only_by_enforceControlParameters [OF k h s,
      of twoSlotController "(1, 1)" "[2, 3]" 0 7 0 0]
  have labels: "map received (onViewParameters (snd (enforceControlParameters lockedTool (10, 10) twoSlotController)))
       = [[setFocusToSpinbox], []]"
    using w by (simp add: twoSlotController_eq call_def newEditableDatumLabel_def)
  from k h w labels show ?thesis by blast
qed

subsection \<open>Index-based focus operations outside the vector\<close>

text \<open>
  C9. For an index at or beyond the number of on-view parameters,
  \<^verbatim>\<open>setFocusToOnViewParameter\<close> changes nothing, neither the index with focus nor any control,
  and \<^verbatim>\<open>isOnViewParameterOfCurrentMode\<close> answers false. Both are guarded reads, so this
  holds for the empty vector at every index.
\<close>

theorem focus_operations_out_of_range:
  "length (onViewParameters c) \<le> i \<Longrightarrow>
     setFocusToOnViewParameter i c = c \<and> \<not> isOnViewParameterOfCurrentMode T i c"
  by (simp add: setFocusToOnViewParameter_def isOnViewParameterOfCurrentMode_def)

theorem focus_operations_out_of_range_witness:
  "length (onViewParameters (newDrawSketchController 0 seekFirstHandler)) \<le> 0
   \<and> setFocusToOnViewParameter 0 (newDrawSketchController 0 seekFirstHandler)
       = newDrawSketchController 0 seekFirstHandler
   \<and> \<not> isOnViewParameterOfCurrentMode headerTool 0 (newDrawSketchController 0 seekFirstHandler)"
  using focus_operations_out_of_range [of "newDrawSketchController 0 seekFirstHandler" 0 headerTool]
  by (simp add: newDrawSketchController_def)

subsection \<open>After a change of the handler's mode\<close>

text \<open>
  C10. When the handler is not at \<^verbatim>\<open>End\<close> or its continuous mode is on,
  \<^verbatim>\<open>afterHandlerModeChanged\<close> runs the handler's \<^verbatim>\<open>mouseMove\<close> on the last raw position:
  the controller that results is the one that function leaves, and this is the only call.
  At \<^verbatim>\<open>End\<close> with continuous mode off it does nothing at all.
\<close>

theorem afterHandlerModeChanged_replay:
  "(state (handler c) \<noteq> End \<or> continuousMode (handler c) \<longrightarrow>
      afterHandlerModeChanged T c
        = (mouseMove T (prevCursorPosition c) c)
            \<lparr>issued := issued c @ [MouseMove (prevCursorPosition c)]\<rparr>)
   \<and> (state (handler c) = End \<and> \<not> continuousMode (handler c)
        \<longrightarrow> afterHandlerModeChanged T c = c)
   \<and> issued (afterHandlerModeChanged T c) =
       issued c @ (if state (handler c) \<noteq> End \<or> continuousMode (handler c)
                   then [MouseMove (prevCursorPosition c)] else [])"
  by (simp add: afterHandlerModeChanged_def isState_def handler_mouseMove_def)

theorem afterHandlerModeChanged_replay_witness:
  "state (handler endedController) = End \<and> \<not> continuousMode (handler endedController)
   \<and> afterHandlerModeChanged advancingTool endedController = endedController
   \<and> state (handler twoSlotController) \<noteq> End
   \<and> afterHandlerModeChanged advancingTool twoSlotController
       = twoSlotController\<lparr>handler := seekFirstHandler\<lparr>state := Seek 1\<rparr>,
                             issued := [MouseMove (0, 0)]\<rparr>
   \<and> continuousMode (handler (endedController\<lparr>handler := seekFirstHandler
                                   \<lparr>state := End, continuousMode := True\<rparr>\<rparr>))
   \<and> state (handler (afterHandlerModeChanged advancingTool
         (endedController\<lparr>handler := seekFirstHandler\<lparr>state := End, continuousMode := True\<rparr>\<rparr>)))
       = Seek 1
   \<and> issued (afterHandlerModeChanged advancingTool
         (endedController\<lparr>handler := seekFirstHandler\<lparr>state := End, continuousMode := True\<rparr>\<rparr>))
       = [MouseMove (0, 0)]"
proof -
  let ?k = "endedController\<lparr>handler := seekFirstHandler\<lparr>state := End, continuousMode := True\<rparr>\<rparr>"
  have m: "mouseMove advancingTool = (\<lambda>p c. c\<lparr>handler := (handler c)\<lparr>state := Seek 1\<rparr>\<rparr>)"
    by (simp add: advancingTool_def headerTool_def)
  have e: "state (handler endedController) = End" "\<not> continuousMode (handler endedController)"
    by (simp_all add: endedController_def seekFirstHandler_def)
  have t: "state (handler twoSlotController) \<noteq> End"
    by (simp add: twoSlotController_eq seekFirstHandler_def)
  have k: "continuousMode (handler ?k)" by simp
  have 1: "afterHandlerModeChanged advancingTool endedController = endedController"
    using afterHandlerModeChanged_replay [of endedController advancingTool] e by blast
  have "afterHandlerModeChanged advancingTool twoSlotController
      = (mouseMove advancingTool (prevCursorPosition twoSlotController) twoSlotController)
          \<lparr>issued := issued twoSlotController @ [MouseMove (prevCursorPosition twoSlotController)]\<rparr>"
    using afterHandlerModeChanged_replay [of twoSlotController advancingTool] t by blast
  then have 2: "afterHandlerModeChanged advancingTool twoSlotController
       = twoSlotController\<lparr>handler := seekFirstHandler\<lparr>state := Seek 1\<rparr>,
                             issued := [MouseMove (0, 0)]\<rparr>"
    by (simp add: m twoSlotController_eq)
  have "afterHandlerModeChanged advancingTool ?k
      = (mouseMove advancingTool (prevCursorPosition ?k) ?k)
          \<lparr>issued := issued ?k @ [MouseMove (prevCursorPosition ?k)]\<rparr>"
    using afterHandlerModeChanged_replay [of ?k advancingTool] k by blast
  then have 3: "state (handler (afterHandlerModeChanged advancingTool ?k)) = Seek 1"
    and 4: "issued (afterHandlerModeChanged advancingTool ?k) = [MouseMove (0, 0)]"
    by (simp_all add: m endedController_def twoSlotController_eq)
  from e t k 1 2 3 4 show ?thesis by blast
qed

subsection \<open>The first movement\<close>

text \<open>
  C8. Starting with first-movement tracking clear, the first \<^verbatim>\<open>mouseMoved\<close> takes the
  first-movement branch, which runs \<^verbatim>\<open>setModeOnViewParameters\<close>, and sets the tracking; any
  number of further calls change nothing, so the whole sequence runs
  \<^verbatim>\<open>setModeOnViewParameters\<close> once. With the tracking set, \<^verbatim>\<open>mouseMoved\<close> is the identity.
\<close>

theorem mouseMoved_first_movement_once:
  "(\<not> firstMoveInit c \<longrightarrow>
      mouseMoved T p c = (setModeOnViewParameters T c)\<lparr>firstMoveInit := True\<rparr>
      \<and> fold (mouseMoved T) (p # ps) c = (setModeOnViewParameters T c)\<lparr>firstMoveInit := True\<rparr>)
   \<and> (firstMoveInit c \<longrightarrow> mouseMoved T p c = c \<and> fold (mouseMoved T) (p # ps) c = c)"
  by (simp add: mouseMoved_first mouseMoved_after_first fold_mouseMoved_after_first)

theorem mouseMoved_first_movement_once_witness:
  "\<not> firstMoveInit twoSlotController
   \<and> fold (mouseMoved headerTool) [(1, 1), (2, 1), (3, 2)] twoSlotController
       = (setModeOnViewParameters headerTool twoSlotController)\<lparr>firstMoveInit := True\<rparr>
   \<and> firstMoveInit (mouseMoved headerTool (1, 1) twoSlotController)
   \<and> mouseMoved headerTool (2, 1) (mouseMoved headerTool (1, 1) twoSlotController)
       = mouseMoved headerTool (1, 1) twoSlotController"
proof -
  have clear: "\<not> firstMoveInit twoSlotController"
    by (simp add: twoSlotController_def resetControls_def)
  have first: "mouseMoved headerTool (1, 1) twoSlotController
      = (setModeOnViewParameters headerTool twoSlotController)\<lparr>firstMoveInit := True\<rparr>"
    and all: "fold (mouseMoved headerTool) [(1, 1), (2, 1), (3, 2)] twoSlotController
      = (setModeOnViewParameters headerTool twoSlotController)\<lparr>firstMoveInit := True\<rparr>"
    using clear
      mouseMoved_first_movement_once [of twoSlotController headerTool "(1, 1)" "[(2, 1), (3, 2)]"]
    by blast+
  have moved: "firstMoveInit (mouseMoved headerTool (1, 1) twoSlotController)"
    by (simp add: first)
  have again: "mouseMoved headerTool (2, 1) (mouseMoved headerTool (1, 1) twoSlotController)
      = mouseMoved headerTool (1, 1) twoSlotController"
    using moved
      mouseMoved_first_movement_once
        [of "mouseMoved headerTool (1, 1) twoSlotController" headerTool "(2, 1)" "[]"]
    by blast
  show ?thesis using clear all moved again by blast
qed

end
